theory Spec2Isabelle
  imports Complex_Main "HOL-Library.Multiset"
begin

section \<open>Python string operations used by the sources\<close>

text \<open>
  A Python \<^verbatim>\<open>str\<close> is a sequence of Unicode code points, so it is modelled as a list
  of natural numbers; \<^verbatim>\<open>len\<close> is \<open>length\<close>. A literal of the sources is written
  \<open>(lit ''...'')\<close> when it is ASCII and as its code points otherwise.
\<close>

type_synonym pystr = "nat list"

definition lit :: "string \<Rightarrow> pystr" where
  "lit s = map of_char s"

lemma lit_eq_iff [simp]: "lit a = lit b \<longleftrightarrow> a = b"
  by (simp add: lit_def inj_map_eq_map inj_on_def)

lemma lit_append [simp]: "lit a @ lit b = lit (a @ b)"
  by (simp add: lit_def)

lemma lit_eq_Nil_iff [simp]: "lit a = [] \<longleftrightarrow> a = []"
  by (simp add: lit_def)

lemma length_lit [simp]: "length (lit a) = length a"
  by (simp add: lit_def)

text \<open>The code points \<^verbatim>\<open>str.isspace\<close> accepts, which \<^verbatim>\<open>strip\<close> removes.\<close>

definition py_isspace :: "nat \<Rightarrow> bool" where
  "py_isspace c =
     (c \<in> {9, 10, 11, 12, 13, 28, 29, 30, 31, 32, 133, 160, 5760, 8232, 8233, 8239, 8287, 12288}
      \<or> (8192 \<le> c \<and> c \<le> 8202))"

text \<open>\<^verbatim>\<open>s.strip()\<close>\<close>

definition strip :: "pystr \<Rightarrow> pystr" where
  "strip s = rev (dropWhile py_isspace (rev (dropWhile py_isspace s)))"

text \<open>\<^verbatim>\<open>s.rstrip(chars)\<close>\<close>

definition rstrip_chars :: "pystr \<Rightarrow> pystr \<Rightarrow> pystr" where
  "rstrip_chars s chars = rev (dropWhile (\<lambda>c. c \<in> set chars) (rev s))"

text \<open>\<^verbatim>\<open>s.startswith(p)\<close>\<close>

definition startswith :: "pystr \<Rightarrow> pystr \<Rightarrow> bool" where
  "startswith s p = (take (length p) s = p)"

text \<open>\<^verbatim>\<open>sub in s\<close>\<close>

fun contains :: "pystr \<Rightarrow> pystr \<Rightarrow> bool" where
  "contains sub [] = (sub = [])"
| "contains sub (c # cs) = (startswith (c # cs) sub \<or> contains sub cs)"

text \<open>\<^verbatim>\<open>s.split(sep)\<close> for a non-empty separator; \<open>acc\<close> is the current piece, reversed.\<close>

function split_aux :: "pystr \<Rightarrow> pystr \<Rightarrow> pystr \<Rightarrow> pystr list" where
  "split_aux sep acc s =
     (if s = [] then [rev acc]
      else if sep \<noteq> [] \<and> startswith s sep
        then rev acc # split_aux sep [] (drop (length sep) s)
      else split_aux sep (hd s # acc) (tl s))"
  by pat_completeness auto
termination
  by (relation "measure (\<lambda>(sep, acc, s). length s)") auto

declare split_aux.simps [simp del]

definition split :: "pystr \<Rightarrow> pystr \<Rightarrow> pystr list" where
  "split s sep = split_aux sep [] s"

text \<open>\<^verbatim>\<open>s.replace(old, new)\<close> for a non-empty \<open>old\<close>.\<close>

function replace :: "pystr \<Rightarrow> pystr \<Rightarrow> pystr \<Rightarrow> pystr" where
  "replace s old new =
     (if s = [] then []
      else if old \<noteq> [] \<and> startswith s old
        then new @ replace (drop (length old) s) old new
      else hd s # replace (tl s) old new)"
  by pat_completeness auto
termination
  by (relation "measure (\<lambda>(s, old, new). length s)") auto

declare replace.simps [simp del]

text \<open>
  \<^verbatim>\<open>s.lower()\<close> on the letters A to Z. The sources use it only to look for ASCII words
  in a URL, and no other code point lowers to a letter of those words.
\<close>

definition lower :: "pystr \<Rightarrow> pystr" where
  "lower s = map (\<lambda>c. if 65 \<le> c \<and> c \<le> 90 then c + 32 else c) s"

text \<open>
  Decimal digits. The regular expression class \<^verbatim>\<open>\d\<close> on a \<^verbatim>\<open>str\<close> pattern and
  \<^verbatim>\<open>int\<close> accept the decimal digits of every script (category Nd): 66 runs of ten
  consecutive code points standing for 0 to 9, given here by their zeros (Unicode 14.0,
  the tables of Python 3.11). \<open>digit_value\<close> is the digit a code point stands for.
\<close>

definition decimal_zeros :: "nat list" where
  "decimal_zeros =
     [48, 1632, 1776, 1984, 2406, 2534, 2662, 2790, 2918, 3046, 3174, 3302, 3430, 3558,
      3664, 3792, 3872, 4160, 4240, 6112, 6160, 6470, 6608, 6784, 6800, 6992, 7088, 7232,
      7248, 42528, 43216, 43264, 43472, 43504, 43600, 44016, 65296, 66720, 68912, 69734,
      69872, 69942, 70096, 70384, 70736, 70864, 71248, 71360, 71472, 71904, 72016, 72784,
      73040, 73120, 92768, 92864, 93008, 120782, 120792, 120802, 120812, 120822, 123200,
      123632, 125264, 130032]"

definition digit_value :: "nat \<Rightarrow> nat option" where
  "digit_value c =
     map_option (\<lambda>zero. c - zero) (List.find (\<lambda>zero. zero \<le> c \<and> c < zero + 10) decimal_zeros)"

text \<open>The class \<^verbatim>\<open>\d\<close>.\<close>

definition decimal_digit :: "nat \<Rightarrow> bool" where
  "decimal_digit c = (digit_value c \<noteq> None)"

text \<open>
  \<^verbatim>\<open>c.isdigit()\<close> accepts the decimal digits and the other characters with a digit
  value (superscripts, subscripts, circled digits and the like), given here as ranges.
\<close>

definition other_digits :: "(nat \<times> nat) list" where
  "other_digits =
     [(178, 179), (185, 185), (4969, 4977), (6618, 6618), (8304, 8304), (8308, 8313),
      (8320, 8329), (9312, 9320), (9332, 9340), (9352, 9360), (9450, 9450), (9461, 9469),
      (9471, 9471), (10102, 10110), (10112, 10120), (10122, 10130), (68160, 68163),
      (69216, 69224), (69714, 69722), (127232, 127242)]"

definition isdigit :: "nat \<Rightarrow> bool" where
  "isdigit c = (decimal_digit c \<or> list_ex (\<lambda>(first, last). first \<le> c \<and> c \<le> last) other_digits)"

text \<open>
  \<^verbatim>\<open>int(s)\<close> on a run of decimal digits: the number they write, or a \<^verbatim>\<open>ValueError\<close>
  (\<open>None\<close>) when the run is longer than the interpreter's limit for the conversion, 4300
  digits unless configured otherwise.
\<close>

definition int_max_str_digits :: nat where
  "int_max_str_digits = 4300"

definition digits_number :: "pystr \<Rightarrow> int" where
  "digits_number s = foldl (\<lambda>n c. 10 * n + int (case digit_value c of Some d \<Rightarrow> d | None \<Rightarrow> 0)) 0 s"

definition int_of_digits :: "pystr \<Rightarrow> int option" where
  "int_of_digits s = (if length s > int_max_str_digits then None else Some (digits_number s))"

text \<open>
  \<^verbatim>\<open>re.findall(r'\d+', s)\<close>: the maximal runs of digits, left to right; \<open>cur\<close> is the
  run being read, reversed.
\<close>

fun digit_runs_aux :: "pystr \<Rightarrow> pystr \<Rightarrow> pystr list" where
  "digit_runs_aux cur [] = (if cur = [] then [] else [rev cur])"
| "digit_runs_aux cur (c # cs) =
     (if decimal_digit c then digit_runs_aux (c # cur) cs
      else (if cur = [] then [] else [rev cur]) @ digit_runs_aux [] cs)"

definition findall_digits :: "pystr \<Rightarrow> pystr list" where
  "findall_digits s = digit_runs_aux [] s"

text \<open>\<^verbatim>\<open>re.search(r'(\d+)', s)\<close>: the first run of digits, if any.\<close>

definition search_digits :: "pystr \<Rightarrow> pystr option" where
  "search_digits s = (case findall_digits s of [] \<Rightarrow> None | r # rs \<Rightarrow> Some r)"

section \<open>Values shared by the pipeline\<close>

text \<open>
  A value decoded by \<^verbatim>\<open>json.loads\<close>. An object is kept as the list of the items of
  the decoded dictionary (its keys are distinct); a float is read as a real.
\<close>

datatype json =
    JNull
  | JBool bool
  | JInt int
  | JFloat real
  | JStr pystr
  | JList "json list"
  | JObj "(pystr \<times> json) list"

text \<open>Python truthiness of a decoded value, as \<^verbatim>\<open>if item['is_match']\<close> tests it.\<close>

fun truthy :: "json \<Rightarrow> bool" where
  "truthy JNull = False"
| "truthy (JBool b) = b"
| "truthy (JInt i) = (i \<noteq> 0)"
| "truthy (JFloat r) = (r \<noteq> 0)"
| "truthy (JStr s) = (s \<noteq> [])"
| "truthy (JList xs) = (xs \<noteq> [])"
| "truthy (JObj kvs) = (kvs \<noteq> [])"


text \<open>
  A price cell as the data frame hands it over: a number, NaN (what
  \<^verbatim>\<open>pd.to_numeric(..., errors='coerce')\<close> leaves for an unparseable price) or
  \<^verbatim>\<open>None\<close>. Finite floats are read as reals.
\<close>

datatype pyprice = PNum real | PNaN | PNone

text \<open>
  A candidate match, the dictionary built in \<^verbatim>\<open>calculate_similarities_in_memory\<close>.
  \<open>target_price\<close> is \<open>None\<close> when the key is absent from the dictionary.
\<close>

record candidate =
  target_id :: pystr
  target_title :: pystr
  target_price :: "pyprice option"
  target_image :: pystr
  target_url :: pystr
  similarity :: real

text \<open>
  A judged match, the dictionary appended to \<^verbatim>\<open>verified_results\<close>:
  \<^verbatim>\<open>{'match': match, 'result': result, 'is_match': result.get('is_match', False)}\<close>.
\<close>

record judged =
  match :: candidate
  result :: json
  is_match :: json

section \<open>Result ranker: \<^verbatim>\<open>quicksort_by_price\<close>\<close>

text \<open>The sort key: a finite price or \<^verbatim>\<open>float('inf')\<close>.\<close>

datatype fprice = Fin real | PosInf

fun price_less :: "fprice \<Rightarrow> fprice \<Rightarrow> bool" where
  "price_less (Fin a) (Fin b) = (a < b)"
| "price_less (Fin a) PosInf = True"
| "price_less PosInf b = False"

definition price_le :: "fprice \<Rightarrow> fprice \<Rightarrow> bool" where
  "price_le a b = (\<not> price_less b a)"

text \<open>\<^verbatim>\<open>pd.isna(m.get('target_price'))\<close>: true for an absent key, \<^verbatim>\<open>None\<close> and NaN.\<close>

fun isna :: "pyprice option \<Rightarrow> bool" where
  "isna None = True"
| "isna (Some PNone) = True"
| "isna (Some PNaN) = True"
| "isna (Some (PNum r)) = False"

text \<open>\<^verbatim>\<open>m.get('target_price', float('inf'))\<close> where the value is compared as a float.\<close>

fun get_price_or_inf :: "pyprice option \<Rightarrow> fprice" where
  "get_price_or_inf None = PosInf"
| "get_price_or_inf (Some (PNum r)) = Fin r"
| "get_price_or_inf (Some v) = PosInf"

text \<open>
  The key of the three comprehensions:
  \<^verbatim>\<open>x['match'].get('target_price', inf) if not pd.isna(x['match'].get('target_price')) else inf\<close>.
\<close>

definition item_price :: "judged \<Rightarrow> fprice" where
  "item_price x =
     (if \<not> isna (target_price (match x)) then get_price_or_inf (target_price (match x))
      else PosInf)"

text \<open>
  The pivot's price: \<^verbatim>\<open>pivot['match'].get('target_price', float('inf'))\<close>, replaced by
  infinity when \<^verbatim>\<open>pd.isna\<close> holds of it.
\<close>

definition pivot_price_of :: "judged \<Rightarrow> fprice" where
  "pivot_price_of pivot =
     (case target_price (match pivot) of
        None \<Rightarrow> PosInf
      | Some v \<Rightarrow> (if isna (Some v) then PosInf else get_price_or_inf (Some v)))"

lemma pivot_price_of_eq: "pivot_price_of p = item_price p"
  by (cases "target_price (match p)" rule: isna.cases)
     (simp_all add: pivot_price_of_def item_price_def)

lemma price_less_irrefl [simp]: "\<not> price_less a a"
  by (cases a) simp_all

lemma filter_pivot_shorter:
  assumes "\<not> length arr \<le> Suc 0" and "\<not> P (arr ! (length arr div 2))"
  shows "length (filter P arr) < length arr"
proof (rule length_filter_less)
  show "arr ! (length arr div 2) \<in> set arr"
    using assms(1) by (intro nth_mem) simp
  show "\<not> P (arr ! (length arr div 2))" by (rule assms(2))
qed

function quicksort :: "judged list \<Rightarrow> judged list" where
  "quicksort arr =
     (if length arr \<le> 1 then arr
      else
        let pivot = arr ! (length arr div 2);
            pivot_price = pivot_price_of pivot;
            left = filter (\<lambda>x. price_less (item_price x) pivot_price) arr;
            middle = filter (\<lambda>x. item_price x = pivot_price) arr;
            right = filter (\<lambda>x. price_less pivot_price (item_price x)) arr
        in quicksort left @ middle @ quicksort right)"
  by pat_completeness auto
termination
proof (relation "measure length", goal_cases)
  case 1
  show ?case by simp
next
  case (2 arr pivot pivot_price left)
  then show ?case
    by (simp add: filter_pivot_shorter pivot_price_of_eq)
next
  case (3 arr pivot pivot_price left middle right)
  then show ?case
    by (simp add: filter_pivot_shorter pivot_price_of_eq)
qed

declare quicksort.simps [simp del]

definition quicksort_by_price :: "judged list \<Rightarrow> judged list" where
  "quicksort_by_price items =
     (if length items \<le> 1 then items
      else
        let matched = filter (\<lambda>item. truthy (is_match item)) items;
            unmatched = filter (\<lambda>item. \<not> truthy (is_match item)) items
        in quicksort matched @ quicksort unmatched)"


section \<open>Verdict aggregator: \<^verbatim>\<open>gemini_verify_batch\<close>\<close>

text \<open>The result of \<^verbatim>\<open>float(x)\<close> on a price cell: a number or NaN.\<close>

datatype pyfloat = FNum real | FNaN











section \<open>The verification step of \<^verbatim>\<open>show_comparison_dialog\<close>\<close>



text \<open>The selected source product, as far as the verification step reads it.\<close>

record source_row =
  row_title :: pystr
  row_price :: "pyprice option"









section \<open>Similarity matcher\<close>

text \<open>\<^verbatim>\<open>str(n)\<close> on an integer: its decimal digits, with a sign when negative.\<close>

definition digit_char :: "nat \<Rightarrow> nat" where
  "digit_char d = (lit ''0123456789'') ! d"

fun str_nat :: "nat \<Rightarrow> pystr" where
  "str_nat n =
     (if n < 10 then [digit_char n]
      else str_nat (n div 10) @ [digit_char (n mod 10)])"

declare str_nat.simps [simp del]

definition str_int :: "int \<Rightarrow> pystr" where
  "str_int i = (if i < 0 then 45 # str_nat (nat (- i)) else str_nat (nat i))"

text \<open>
  A row of a product data frame. The columns \<^verbatim>\<open>id\<close> and \<^verbatim>\<open>title\<close> are always read
  with \<^verbatim>\<open>row[...]\<close>; the others with \<^verbatim>\<open>row.get\<close>, and are \<open>None\<close> when the frame
  has no such column. The price column has been through \<^verbatim>\<open>pd.to_numeric\<close>, so a cell
  is a number or NaN.
\<close>

record product_row =
  p_id :: int
  p_title :: pystr
  p_price :: "pyfloat option"
  p_image :: "pystr option"
  p_url :: "pystr option"
  p_sku :: "pystr option"

text \<open>Both source files define \<^verbatim>\<open>prepare_text\<close> with the same body.\<close>

definition prepare_text :: "pystr \<Rightarrow> pystr \<Rightarrow> pystr" where
  "prepare_text title platform =
     (if platform = (lit ''momo'') then (lit ''query: '') else (lit ''passage: '')) @ title"

text \<open>
  \<^verbatim>\<open>model.encode(texts, convert_to_tensor=True)\<close>: one vector per text, in order;
  \<open>encode\<close> is the frozen model on one text.
\<close>

definition get_batch_embeddings :: "(pystr \<Rightarrow> 'v) \<Rightarrow> pystr list \<Rightarrow> 'v list" where
  "get_batch_embeddings encode texts = map encode texts"

text \<open>\<^verbatim>\<open>row.get(column, default)\<close>\<close>

definition get_or :: "'a option \<Rightarrow> 'a \<Rightarrow> 'a" where
  "get_or cell fallback = (case cell of None \<Rightarrow> fallback | Some v \<Rightarrow> v)"

text \<open>\<^verbatim>\<open>row.get('price')\<close> as a dictionary value: \<^verbatim>\<open>None\<close> when the column is missing.\<close>

fun price_cell :: "pyfloat option \<Rightarrow> pyprice" where
  "price_cell None = PNone"
| "price_cell (Some (FNum r)) = PNum r"
| "price_cell (Some FNaN) = PNaN"

text \<open>The dictionary appended to \<^verbatim>\<open>matches\<close> in \<^verbatim>\<open>calculate_similarities_in_memory\<close>.\<close>

definition target_match :: "product_row \<Rightarrow> real \<Rightarrow> candidate" where
  "target_match target_row score =
     \<lparr>target_id = str_int (p_id target_row),
      target_title = p_title target_row,
      target_price = Some (price_cell (p_price target_row)),
      target_image = get_or (p_image target_row) [],
      target_url = get_or (p_url target_row) [],
      similarity = score\<rparr>"

text \<open>
  The inner loop \<^verbatim>\<open>for idx, score in enumerate(cos_similarities)\<close>, reading the target
  row at the same position. A similarity score is read as a real.
\<close>

fun matches_above :: "real \<Rightarrow> product_row list \<Rightarrow> real list \<Rightarrow> candidate list" where
  "matches_above threshold (target_row # target_rows) (score # scores) =
     (if score \<ge> threshold
      then target_match target_row score # matches_above threshold target_rows scores
      else matches_above threshold target_rows scores)"
| "matches_above threshold target_rows scores = []"

text \<open>
  \<^verbatim>\<open>matches.sort(key=lambda x: x['similarity'], reverse=True)\<close>: a stable sort, descending
  by similarity.
\<close>

definition sort_by_similarity :: "candidate list \<Rightarrow> candidate list" where
  "sort_by_similarity matches = sort_key (\<lambda>x. - similarity x) matches"

text \<open>
  The outer loop over the source rows, \<^verbatim>\<open>for idx, row in df.iterrows()\<close>, storing
  \<^verbatim>\<open>similarities[str(row['id'])] = matches\<close>. The frames come from lists of records, so
  the index label \<open>idx\<close> is the position. The two branches of the source are this loop
  with the roles of the two frames exchanged.
\<close>

definition match_rows ::
  "real \<Rightarrow> ('v \<Rightarrow> 'v \<Rightarrow> real) \<Rightarrow> product_row list \<Rightarrow> 'v list \<Rightarrow>
   product_row list \<Rightarrow> 'v list \<Rightarrow> (pystr \<rightharpoonup> candidate list)" where
  "match_rows threshold cosine_similarity source_df source_embeddings target_df
       target_embeddings =
     fold (\<lambda>(idx, source_row) similarities.
             let source_emb = source_embeddings ! idx;
                 cos_similarities = map (cosine_similarity source_emb) target_embeddings;
                 matches = matches_above threshold target_df cos_similarities
             in similarities(str_int (p_id source_row) \<mapsto> sort_by_similarity matches))
          (enumerate 0 source_df) Map.empty"

definition calculate_similarities_in_memory ::
  "(pystr \<Rightarrow> 'v) \<Rightarrow> ('v \<Rightarrow> 'v \<Rightarrow> real) \<Rightarrow> product_row list \<Rightarrow> product_row list \<Rightarrow>
   pystr \<Rightarrow> (pystr \<rightharpoonup> candidate list)" where
  "calculate_similarities_in_memory encode cosine_similarity momo_df pchome_df direction =
     (if momo_df = [] \<or> pchome_df = [] then Map.empty
      else
        let momo_texts = map (\<lambda>row. prepare_text (p_title row) (lit ''momo'')) momo_df;
            pchome_texts = map (\<lambda>row. prepare_text (p_title row) (lit ''pchome'')) pchome_df;
            momo_embeddings = get_batch_embeddings encode momo_texts;
            pchome_embeddings = get_batch_embeddings encode pchome_texts;
            threshold = 0.739465
        in if direction = (lit ''momo_to_pchome'')
           then match_rows threshold cosine_similarity momo_df momo_embeddings
                  pchome_df pchome_embeddings
           else match_rows threshold cosine_similarity pchome_df pchome_embeddings
                  momo_df momo_embeddings)"

text \<open>
  The texts whose embeddings a branch reads for its source rows, and for its target rows:
  the first branch takes \<open>momo_embeddings[idx]\<close> against \<open>pchome_embeddings\<close>, the
  second \<open>pchome_embeddings[idx]\<close> against \<open>momo_embeddings\<close>.
\<close>

definition source_texts :: "product_row list \<Rightarrow> product_row list \<Rightarrow> pystr \<Rightarrow> pystr list" where
  "source_texts momo_df pchome_df direction =
     (if direction = (lit ''momo_to_pchome'')
      then map (\<lambda>row. prepare_text (p_title row) (lit ''momo'')) momo_df
      else map (\<lambda>row. prepare_text (p_title row) (lit ''pchome'')) pchome_df)"

definition target_texts :: "product_row list \<Rightarrow> product_row list \<Rightarrow> pystr \<Rightarrow> pystr list" where
  "target_texts momo_df pchome_df direction =
     (if direction = (lit ''momo_to_pchome'')
      then map (\<lambda>row. prepare_text (p_title row) (lit ''pchome'')) pchome_df
      else map (\<lambda>row. prepare_text (p_title row) (lit ''momo'')) momo_df)"

subsection \<open>\<^verbatim>\<open>calculate_similarities_for_all\<close> of the precomputation module\<close>






subsection \<open>The candidate list the specification asks for\<close>



section \<open>Scrapers: shared data\<close>

text \<open>
  The outcome of a DOM read on a listing element: Selenium raises
  \<^verbatim>\<open>NoSuchElementException\<close>, or some other exception (a stale element, a lost session,
  or an \<^verbatim>\<open>AttributeError\<close> on a missing attribute), or the read gives a value.
\<close>

datatype 'a dom = NoSuchElement | OtherException | Found 'a

text \<open>The product dictionary both scrapers append to \<^verbatim>\<open>products\<close>.\<close>

record product =
  pr_id :: int
  pr_title :: pystr
  pr_price :: int
  pr_image_url :: pystr
  pr_url :: pystr
  pr_platform :: pystr
  pr_sku :: pystr

text \<open>
  The local variables of a scrape that outlive one element: the result list, the next
  sequence number, the page number, the SKUs seen, the run of empty pages, and the two
  per-page counters. \<open>requested_pages\<close> and \<open>cancel_checks\<close> record effects: the page
  numbers asked of the site, in order, and how often \<^verbatim>\<open>cancel_check\<close> has been called.
\<close>

record scrape_state =
  products :: "product list"
  product_id :: int
  page :: nat
  seen_skus :: "pystr set"
  consecutive_empty_pages :: nat
  page_products_count :: nat
  consecutive_duplicates :: nat
  requested_pages :: "nat list"
  cancel_checks :: nat

definition initial_state :: scrape_state where
  "initial_state =
     \<lparr>products = [], product_id = 1, page = 1, seen_skus = {}, consecutive_empty_pages = 0,
      page_products_count = 0, consecutive_duplicates = 0, requested_pages = [],
      cancel_checks = 0\<rparr>"

text \<open>How a loop body ends: \<^verbatim>\<open>break\<close> (or an exception that ends the scrape with the
  products collected so far), or on to the next round.\<close>

datatype flow = Stop | Continue

text \<open>\<^verbatim>\<open>max(xs)\<close> and \<^verbatim>\<open>min(xs)\<close> on a non-empty list of integers.\<close>

definition py_max :: "int list \<Rightarrow> int" where
  "py_max xs = fold max (tl xs) (hd xs)"

definition py_min :: "int list \<Rightarrow> int" where
  "py_min xs = fold min (tl xs) (hd xs)"

text \<open>
  \<^verbatim>\<open>re.search(r'i_code=(\d+)', url)\<close>: the digits after the leftmost \<^verbatim>\<open>i_code=\<close> that is
  followed by a digit.
\<close>

fun search_i_code :: "pystr \<Rightarrow> pystr option" where
  "search_i_code [] = None"
| "search_i_code (c # cs) =
     (if startswith (c # cs) (lit ''i_code='') \<and> takeWhile decimal_digit (drop 7 (c # cs)) \<noteq> []
      then Some (takeWhile decimal_digit (drop 7 (c # cs)))
      else search_i_code cs)"

text \<open>
  \<^verbatim>\<open>re.search(r'/prod/(.*?)(?:\?|$)', url)\<close>. \<open>prod_group\<close> reads the group from the text
  after \<^verbatim>\<open>/prod/\<close>: the shortest prefix followed by a question mark (63) or by the end
  of the text, where the end may also be just before a final newline (10); the dot does
  not match a newline. The search takes the leftmost \<^verbatim>\<open>/prod/\<close> where this succeeds.
\<close>

fun prod_group :: "pystr \<Rightarrow> pystr option" where
  "prod_group [] = Some []"
| "prod_group (c # cs) =
     (if c = 63 then Some []
      else if c = 10 \<and> cs = [] then Some []
      else if c = 10 then None
      else map_option ((#) c) (prod_group cs))"

fun search_prod :: "pystr \<Rightarrow> pystr option" where
  "search_prod [] = None"
| "search_prod (c # cs) =
     (if startswith (c # cs) (lit ''/prod/'')
      then (case prod_group (drop 6 (c # cs)) of
              Some g \<Rightarrow> Some g
            | None \<Rightarrow> search_prod cs)
      else search_prod cs)"

text \<open>
  \<^verbatim>\<open>re.findall(r'\$[\d,]+', line)\<close>: each dollar sign (36) followed by at least one digit
  or comma (44), with the longest such run.
\<close>

function findall_dollar :: "pystr \<Rightarrow> pystr list" where
  "findall_dollar [] = []"
| "findall_dollar (c # cs) =
     (if c = 36 \<and> takeWhile (\<lambda>d. decimal_digit d \<or> d = 44) cs \<noteq> []
      then (c # takeWhile (\<lambda>d. decimal_digit d \<or> d = 44) cs)
             # findall_dollar (dropWhile (\<lambda>d. decimal_digit d \<or> d = 44) cs)
      else findall_dollar cs)"
  by pat_completeness auto
termination
  by (relation "measure length") (auto simp: length_dropWhile_le less_Suc_eq_le)

text \<open>
  \<^verbatim>\<open>int(re.sub(r'[^\d]', '', s))\<close>: the digits of \<open>s\<close> as a number; \<^verbatim>\<open>int\<close> raises
  \<^verbatim>\<open>ValueError\<close> (\<open>None\<close>) on the empty string and on too long a run.
\<close>

definition int_of_kept_digits :: "pystr \<Rightarrow> int option" where
  "int_of_kept_digits s =
     (if filter decimal_digit s = [] then None else int_of_digits (filter decimal_digit s))"

text \<open>
  What reading a number off a text comes to: the conversion raises \<^verbatim>\<open>ValueError\<close>, the
  text has no number to offer, or a number is read.
\<close>

datatype number_read = Raises | Nothing | Number int

text \<open>
  What one listing element parses to, before the acceptance test: the local variables
  \<^verbatim>\<open>title\<close>, \<^verbatim>\<open>price\<close>, \<^verbatim>\<open>url\<close>, \<^verbatim>\<open>sku\<close> and \<^verbatim>\<open>image_url\<close>. A \<^verbatim>\<open>url\<close> that
  is \<^verbatim>\<open>None\<close> is kept as the empty string: the sources only test it for truth.
\<close>

record listing =
  l_title :: pystr
  l_price :: int
  l_url :: pystr
  l_sku :: pystr
  l_image_url :: pystr

text \<open>
  The listing strategy: the elements of the first selector that is found and yields any;
  \<open>find_elements\<close> gives \<open>None\<close> for a selector whose wait times out.
\<close>

fun first_nonempty :: "(pystr \<Rightarrow> 'e list option) \<Rightarrow> pystr list \<Rightarrow> 'e list" where
  "first_nonempty find_elements [] = []"
| "first_nonempty find_elements (selector # rest) =
     (case find_elements selector of
        Some (e # es) \<Rightarrow> e # es
      | Some [] \<Rightarrow> first_nonempty find_elements rest
      | None \<Rightarrow> first_nonempty find_elements rest)"

section \<open>MOMO scraper: \<^verbatim>\<open>fetch_products_for_momo\<close>\<close>

text \<open>
  A listing element, as the answers to the reads the parser makes of it: its text; per
  title selector the string the loop reads (the \<^verbatim>\<open>alt\<close> or \<^verbatim>\<open>title\<close> attribute or the
  text); per price selector the texts of the elements found; per link selector the
  \<^verbatim>\<open>href\<close>; the value of the hidden \<^verbatim>\<open>input#viewProdId\<close>; and the image URL that the
  image strategy arrives at (it reads the element and the date and assigns only
  \<^verbatim>\<open>image_url\<close>).
\<close>

record momo_element =
  me_text :: pystr
  me_title :: "pystr \<Rightarrow> pystr dom"
  me_price_texts :: "pystr \<Rightarrow> pystr list"
  me_href :: "pystr \<Rightarrow> pystr option dom"
  me_view_prod_id :: "pystr option dom"
  me_image_url :: pystr

definition title_selectors :: "pystr list" where
  "title_selectors =
     [lit ''h3.prdName'', lit ''.prdNameTitle h3.prdName'', lit ''.prdName'', lit ''h3'',
      lit ''a[title]'', lit ''img[alt]'', lit ''.goodsName'', lit ''.goodsInfo h3'', lit ''a'']"

text \<open>The title loop; \<open>title\<close> keeps the last string read when none is longer than 5.\<close>

fun momo_title_loop :: "momo_element \<Rightarrow> pystr list \<Rightarrow> pystr \<Rightarrow> pystr dom" where
  "momo_title_loop element [] title = Found title"
| "momo_title_loop element (selector # rest) title =
     (case me_title element selector of
        NoSuchElement \<Rightarrow> momo_title_loop element rest title
      | OtherException \<Rightarrow> OtherException
      | Found raw \<Rightarrow>
          (let title = strip raw
           in if title \<noteq> [] \<and> length title > 5 then Found title
              else momo_title_loop element rest title))"

definition price_selectors :: "pystr list" where
  "price_selectors =
     [lit ''.money .price b'', lit ''.price b'', lit ''.money b'', lit ''.price'',
      lit ''.money'', lit ''.cost'', lit ''b'', lit ''strong'', lit ''.goodsPrice'',
      lit ''.priceInfo'', lit ''.prodPrice'', lit ''.prdPrice'']"

text \<open>
  \<^verbatim>\<open>[int(num) for num in numbers if int(num) > 10]\<close> over
  \<^verbatim>\<open>re.findall(r'\d+', text.replace(',', ''))\<close>; \<open>None\<close> when a conversion raises.
\<close>

fun ints_of :: "pystr list \<Rightarrow> int list option" where
  "ints_of [] = Some []"
| "ints_of (num # numbers) =
     (case int_of_digits num of
        None \<Rightarrow> None
      | Some n \<Rightarrow> map_option ((#) n) (ints_of numbers))"

definition potential_prices :: "pystr \<Rightarrow> int list option" where
  "potential_prices text =
     map_option (filter (\<lambda>n. n > 10)) (ints_of (findall_digits (replace text (lit '','') [])))"

text \<open>
  One round of the loop over the elements of a price selector: the conversion raises, or
  the round leaves \<^verbatim>\<open>price\<close> as it is, or it sets the price and leaves the loop.
\<close>

definition momo_text_price :: "pystr \<Rightarrow> number_read" where
  "momo_text_price price_text =
     (if price_text \<noteq> [] \<and> list_ex isdigit price_text
      then (if findall_digits (replace price_text (lit '','') []) \<noteq> []
            then (case potential_prices price_text of
                    None \<Rightarrow> Raises
                  | Some prices \<Rightarrow> if prices \<noteq> [] then Number (py_max prices) else Nothing)
            else Nothing)
      else Nothing)"

text \<open>The two loops carry \<^verbatim>\<open>price\<close>; \<open>None\<close> is the \<^verbatim>\<open>ValueError\<close> on its way out.\<close>

fun first_text_price :: "pystr list \<Rightarrow> int \<Rightarrow> int option" where
  "first_text_price [] price = Some price"
| "first_text_price (price_text # rest) price =
     (case momo_text_price price_text of
        Raises \<Rightarrow> None
      | Number p \<Rightarrow> Some p
      | Nothing \<Rightarrow> first_text_price rest price)"

fun momo_selector_price :: "momo_element \<Rightarrow> pystr list \<Rightarrow> int \<Rightarrow> int option" where
  "momo_selector_price element [] price = Some price"
| "momo_selector_price element (selector # rest) price =
     (case first_text_price (me_price_texts element selector) price of
        None \<Rightarrow> None
      | Some price \<Rightarrow>
          if price > 0 then Some price else momo_selector_price element rest price)"

text \<open>
  The price: by selector, then from the whole text of the element, where a
  \<^verbatim>\<open>ValueError\<close> is caught and leaves the price 0. \<open>None\<close> is a \<^verbatim>\<open>ValueError\<close> of the
  selector loops, which only the handler of the loop body catches.
\<close>

definition momo_listing_price :: "momo_element \<Rightarrow> int option" where
  "momo_listing_price element =
     (case momo_selector_price element price_selectors 0 of
        None \<Rightarrow> None
      | Some price \<Rightarrow>
          Some (if price \<le> 0
                then (if findall_digits (replace (me_text element) (lit '','') []) \<noteq> []
                      then (case potential_prices (me_text element) of
                              None \<Rightarrow> 0
                            | Some prices \<Rightarrow> if prices \<noteq> [] then py_max prices else price)
                      else price)
                else price))"

definition momo_absolute :: "pystr \<Rightarrow> pystr" where
  "momo_absolute url =
     (if \<not> startswith url (lit ''http'') then lit ''https://www.momoshop.com.tw'' @ url
      else url)"

text \<open>
  The link: three selectors in turn. With the first two a missing \<^verbatim>\<open>href\<close> makes
  \<^verbatim>\<open>url.startswith\<close> raise; with the third it is tested for truth first.
\<close>

definition momo_url :: "momo_element \<Rightarrow> pystr dom" where
  "momo_url element =
     (case me_href element (lit ''a.goods-img-url'') of
        Found (Some url) \<Rightarrow> Found (momo_absolute url)
      | Found None \<Rightarrow> OtherException
      | OtherException \<Rightarrow> OtherException
      | NoSuchElement \<Rightarrow>
          (case me_href element (lit ''a[href*='/goods/']'') of
             Found (Some url) \<Rightarrow> Found (momo_absolute url)
           | Found None \<Rightarrow> OtherException
           | OtherException \<Rightarrow> OtherException
           | NoSuchElement \<Rightarrow>
               (case me_href element (lit ''a[href]'') of
                  Found (Some url) \<Rightarrow> Found (if url \<noteq> [] then momo_absolute url else url)
                | Found None \<Rightarrow> Found []
                | OtherException \<Rightarrow> OtherException
                | NoSuchElement \<Rightarrow> Found [])))"

text \<open>
  The SKU from the URL: the \<^verbatim>\<open>i_code\<close> digits, or else the last path segment up to its
  first question mark and then up to its first dot.
\<close>

definition momo_sku_from_url :: "pystr \<Rightarrow> pystr" where
  "momo_sku_from_url url =
     (case search_i_code url of
        Some digits \<Rightarrow> digits
      | None \<Rightarrow>
          (let url_parts = split (rstrip_chars url (lit ''/'')) (lit ''/'');
               last_part = last url_parts;
               last_part = (if contains (lit ''?'') last_part
                            then hd (split last_part (lit ''?'')) else last_part);
               last_part = (if contains (lit ''.'') last_part
                            then hd (split last_part (lit ''.'')) else last_part)
           in last_part))"

text \<open>The SKU and, when only the SKU is known, the URL built from it.\<close>

definition momo_sku_url :: "momo_element \<Rightarrow> pystr \<Rightarrow> (pystr \<times> pystr) dom" where
  "momo_sku_url element url =
     (case me_view_prod_id element of
        OtherException \<Rightarrow> OtherException
      | read \<Rightarrow>
          (let sku = (case read of Found (Some sku_val) \<Rightarrow> sku_val | _ \<Rightarrow> []);
               sku = (if sku = [] \<and> url \<noteq> [] then momo_sku_from_url url else sku);
               url = (if url = [] \<and> sku \<noteq> []
                      then lit ''https://www.momoshop.com.tw/goods/GoodsDetail.jsp?i_code='' @ sku
                      else url)
           in Found (sku, url)))"

text \<open>
  The body of the element loop up to the acceptance test. \<open>None\<close> is a \<^verbatim>\<open>continue\<close>:
  an element with fewer than 5 characters of text, without title or without price, or
  one on which a read or a conversion raised (the handler of the loop body skips it).
\<close>

definition parse_momo :: "momo_element \<Rightarrow> listing option" where
  "parse_momo element =
     (let element_text = strip (me_text element)
      in if element_text = [] \<or> length element_text < 5 then None
         else
           case momo_title_loop element title_selectors [] of
             Found title \<Rightarrow>
               if title = [] then None
               else
                 (case momo_listing_price element of
                    None \<Rightarrow> None
                  | Some price \<Rightarrow>
                      if price \<le> 0 then None
                      else
                        (case momo_url element of
                           Found url \<Rightarrow>
                             (case momo_sku_url element url of
                                Found (sku, url) \<Rightarrow>
                                  Some \<lparr>l_title = title, l_price = price, l_url = url,
                                        l_sku = sku, l_image_url = me_image_url element\<rparr>
                              | _ \<Rightarrow> None)
                         | _ \<Rightarrow> None))
           | _ \<Rightarrow> None)"

text \<open>\<^verbatim>\<open>if sku and sku in seen_skus: ... elif url in [p['url'] for p in products]: ...\<close>\<close>

definition momo_is_duplicate :: "scrape_state \<Rightarrow> listing \<Rightarrow> bool" where
  "momo_is_duplicate s l =
     (if l_sku l \<noteq> [] \<and> l_sku l \<in> seen_skus s then True
      else if l_url l \<in> set (map pr_url (products s)) then True
      else False)"

definition momo_accept :: "scrape_state \<Rightarrow> listing \<Rightarrow> scrape_state" where
  "momo_accept s l =
     s\<lparr>consecutive_duplicates := 0,
       products := products s @
         [\<lparr>pr_id = product_id s, pr_title = l_title l, pr_price = l_price l,
           pr_image_url = l_image_url l, pr_url = l_url l, pr_platform = lit ''momo'',
           pr_sku = l_sku l\<rparr>],
       seen_skus := (if l_sku l \<noteq> [] then insert (l_sku l) (seen_skus s) else seen_skus s),
       product_id := product_id s + 1,
       page_products_count := page_products_count s + 1\<rparr>"

text \<open>The loop over the elements of one page. \<open>cancel_check\<close> answers its k-th call.\<close>

fun momo_elements ::
  "(nat \<Rightarrow> bool) \<Rightarrow> nat \<Rightarrow> momo_element list \<Rightarrow> scrape_state \<Rightarrow> scrape_state" where
  "momo_elements cancel_check max_products [] s = s"
| "momo_elements cancel_check max_products (element # rest) s =
     (let s1 = s\<lparr>cancel_checks := cancel_checks s + 1\<rparr>
      in if cancel_check (cancel_checks s) then s1
         else if length (products s1) \<ge> max_products then s1
         else
           case parse_momo element of
             None \<Rightarrow> momo_elements cancel_check max_products rest s1
           | Some l \<Rightarrow>
               if l_title l \<noteq> [] \<and> l_price l > 0 \<and> l_url l \<noteq> []
               then
                 if momo_is_duplicate s1 l
                 then
                   (let s2 = s1\<lparr>consecutive_duplicates := consecutive_duplicates s1 + 1\<rparr>
                    in if consecutive_duplicates s2 \<ge> 10 then s2
                       else momo_elements cancel_check max_products rest s2)
                 else momo_elements cancel_check max_products rest (momo_accept s1 l)
               else momo_elements cancel_check max_products rest s1)"

text \<open>
  What the site answers for a page number: the page does not load within the retries,
  the window is lost, a driver call raises, or the page shows a total count (\<open>None\<close> when
  it is missing or not a number) and, per listing selector, elements.
\<close>

datatype momo_page =
    LoadFailed
  | WindowLost
  | PageRaised
  | Listing "int option" "pystr \<Rightarrow> momo_element list option"

record momo_site =
  momo_driver_starts :: bool
  momo_cancel_check :: "nat \<Rightarrow> bool"
  momo_pages :: "nat \<Rightarrow> momo_page"

definition selectors_to_try :: "pystr list" where
  "selectors_to_try =
     [lit ''li.listAreaLi'', lit ''.listAreaUl li.listAreaLi'', lit ''li.goodsItemLi'',
      lit ''.prdListArea .goodsItemLi'', lit ''li[data-gtm]'', lit ''.goodsItemLi'']"

text \<open>The end of a page: the stopping rules, then the step to the next page.\<close>

definition momo_next_page :: "nat \<Rightarrow> scrape_state \<Rightarrow> flow \<times> scrape_state" where
  "momo_next_page max_products s =
     (if length (products s) < max_products then (Continue, s\<lparr>page := page s + 1\<rparr>)
      else (Stop, s))"

definition momo_page_end :: "nat \<Rightarrow> nat \<Rightarrow> scrape_state \<Rightarrow> flow \<times> scrape_state" where
  "momo_page_end n_elements max_products s =
     (if page_products_count s = 0
      then
        (let s1 = s\<lparr>consecutive_empty_pages := consecutive_empty_pages s + 1\<rparr>
         in if page s1 = 1 \<and> n_elements < 10 then (Stop, s1)
            else if n_elements < 10 then (Stop, s1)
            else if page s1 > 1 \<and> n_elements \<ge> 10 then (Stop, s1)
            else if consecutive_empty_pages s1 \<ge> 2 then (Stop, s1)
            else momo_next_page max_products s1)
      else momo_next_page max_products (s\<lparr>consecutive_empty_pages := 0\<rparr>))"

text \<open>One round of the page loop, entered with fewer than \<open>max_products\<close> products.\<close>

definition momo_page_step :: "momo_site \<Rightarrow> nat \<Rightarrow> scrape_state \<Rightarrow> flow \<times> scrape_state" where
  "momo_page_step site max_products s =
     (let s1 = s\<lparr>cancel_checks := cancel_checks s + 1\<rparr>
      in if momo_cancel_check site (cancel_checks s) then (Stop, s1)
         else
           let s2 = s1\<lparr>requested_pages := requested_pages s1 @ [page s1]\<rparr>
           in case momo_pages site (page s2) of
                LoadFailed \<Rightarrow> (Stop, s2)
              | WindowLost \<Rightarrow> (Stop, s2)
              | PageRaised \<Rightarrow> (Stop, s2)
              | Listing total_available find_elements \<Rightarrow>
                  if (case total_available of
                        Some n_total \<Rightarrow> n_total = 0 \<or> int (length (products s2)) \<ge> n_total
                      | None \<Rightarrow> False)
                  then (Stop, s2)
                  else
                    let product_elements = first_nonempty find_elements selectors_to_try
                    in if product_elements = [] then (Stop, s2)
                       else
                         momo_page_end (length product_elements) max_products
                           (momo_elements (momo_cancel_check site) max_products product_elements
                              (s2\<lparr>page_products_count := 0, consecutive_duplicates := 0\<rparr>)))"

lemma momo_accept_fields [simp]:
  "length (products (momo_accept s l)) = Suc (length (products s))"
  "page_products_count (momo_accept s l) = Suc (page_products_count s)"
  "page (momo_accept s l) = page s"
  "requested_pages (momo_accept s l) = requested_pages s"
  by (simp_all add: momo_accept_def)

lemma momo_elements_count:
  "length (products (momo_elements c m es s)) + page_products_count s =
     length (products s) + page_products_count (momo_elements c m es s)
   \<and> page (momo_elements c m es s) = page s
   \<and> requested_pages (momo_elements c m es s) = requested_pages s"
proof (induction es arbitrary: s)
  case Nil
  show ?case by simp
next
  case (Cons e es)
  let ?s1 = "s\<lparr>cancel_checks := cancel_checks s + 1\<rparr>"
  have a: "length (products ?s1) = length (products s)"
    "page_products_count ?s1 = page_products_count s" "page ?s1 = page s"
    "requested_pages ?s1 = requested_pages s"
    by simp_all
  show ?case
    using Cons.IH [of ?s1]
      Cons.IH [of "?s1\<lparr>consecutive_duplicates := consecutive_duplicates ?s1 + 1\<rparr>"]
      Cons.IH [of "momo_accept ?s1 l" for l]
    by (auto simp: Let_def split: option.splits)
qed

text \<open>
  The quantity that every further round of either page loop lowers: twice the number of
  products still wanted, plus two on page 0, one on page 1 and nothing from page 2 on.
\<close>

definition scrape_measure :: "nat \<Rightarrow> scrape_state \<Rightarrow> nat" where
  "scrape_measure max_products s =
     2 * (max_products - length (products s)) + (2 - min (page s) 2)"

lemma momo_page_step_decreases:
  assumes "momo_page_step site m s = (Continue, s')" and "length (products s) < m"
  shows "scrape_measure m s' < scrape_measure m s"
proof -
  let ?s2 = "s\<lparr>cancel_checks := cancel_checks s + 1,
               requested_pages := requested_pages s @ [page s]\<rparr>"
  from assms(1) obtain n_total find where
    lst: "momo_pages site (page s) = Listing n_total find"
    and els: "first_nonempty find selectors_to_try \<noteq> []"
    and pe: "momo_page_end (length (first_nonempty find selectors_to_try)) m
          (momo_elements (momo_cancel_check site) m (first_nonempty find selectors_to_try)
             (?s2\<lparr>page_products_count := 0, consecutive_duplicates := 0\<rparr>)) = (Continue, s')"
    by (auto simp: momo_page_step_def Let_def split: if_splits momo_page.splits)
  define s3 where "s3 = momo_elements (momo_cancel_check site) m
      (first_nonempty find selectors_to_try)
      (?s2\<lparr>page_products_count := 0, consecutive_duplicates := 0\<rparr>)"
  have len: "length (products s3) = length (products s) + page_products_count s3"
    and pg: "page s3 = page s"
    using momo_elements_count [of "momo_cancel_check site" m "first_nonempty find selectors_to_try"
        "?s2\<lparr>page_products_count := 0, consecutive_duplicates := 0\<rparr>"]
    unfolding s3_def by simp_all
  from pe have "momo_page_end (length (first_nonempty find selectors_to_try)) m s3 = (Continue, s')"
    unfolding s3_def .
  then show ?thesis
    using len pg assms(2)
    by (auto simp: momo_page_end_def momo_next_page_def scrape_measure_def Let_def
        split: if_splits)
qed

text \<open>The page loop \<^verbatim>\<open>while len(products) < max_products\<close>.\<close>

function momo_loop :: "momo_site \<Rightarrow> nat \<Rightarrow> scrape_state \<Rightarrow> scrape_state" where
  "momo_loop site max_products s =
     (if length (products s) < max_products
      then (case momo_page_step site max_products s of
              (Stop, s') \<Rightarrow> s'
            | (Continue, s') \<Rightarrow> momo_loop site max_products s')
      else s)"
  by pat_completeness auto
termination
proof (relation "measure (\<lambda>(site, max_products, s). scrape_measure max_products s)", goal_cases)
  case 1
  show ?case by simp
next
  case (2 site max_products s x1 s')
  then show ?case
    using momo_page_step_decreases [of site max_products s s'] by simp
qed

declare momo_loop.simps [simp del]

text \<open>
  The whole run. When no browser can be started the exception reaches the outer handler
  with nothing collected. Every exit returns \<^verbatim>\<open>products\<close>.
\<close>

definition momo_run :: "momo_site \<Rightarrow> nat \<Rightarrow> scrape_state" where
  "momo_run site max_products =
     (if momo_driver_starts site then momo_loop site max_products initial_state
      else initial_state)"

definition fetch_products_for_momo :: "momo_site \<Rightarrow> nat \<Rightarrow> product list" where
  "fetch_products_for_momo site max_products = products (momo_run site max_products)"

section \<open>PChome scraper: \<^verbatim>\<open>fetch_products_for_pchome\<close>\<close>

text \<open>
  A listing element, as the answers to the reads the parser makes of it: the \<^verbatim>\<open>href\<close>
  of its product link, the text of its title, the texts of its price blocks (none when
  the read fails), its whole text, the text of its sale-price block (\<open>None\<close> when the read
  fails), per image selector the six attributes the loop reads from the first image found
  (\<open>None\<close> when the read fails), and its own \<^verbatim>\<open>data-\<close> attributes.
\<close>

record pchome_element =
  pe_link :: "pystr option dom"
  pe_title :: "pystr dom"
  pe_price_divs :: "pystr list"
  pe_text :: pystr
  pe_sale_price :: "pystr option"
  pe_img :: "pystr \<Rightarrow> pystr option list option"
  pe_attr :: "pystr \<Rightarrow> pystr option"

text \<open>
  The markers of an instalment amount in a price block: the character for "period"
  (0x671F), \<^verbatim>\<open>x\<close>, \<^verbatim>\<open>X\<close>, \<^verbatim>\<open>/\<close> and "per period" (0x6BCF 0x671F); for a line of the
  element text also "by instalments" (0x5206 0x671F).
\<close>

definition block_markers :: "pystr list" where
  "block_markers = [[0x671F], lit ''x'', lit ''X'', lit ''/'', [0x6BCF, 0x671F]]"

definition line_markers :: "pystr list" where
  "line_markers =
     [[0x671F], lit ''x'', lit ''X'', lit ''/'', [0x6BCF, 0x671F], [0x5206, 0x671F]]"

text \<open>
  \<^verbatim>\<open>price_text.replace(',', '').replace('$', '').replace(CURRENCY, '').strip()\<close>, where
  the currency character is 0x5143, and \<^verbatim>\<open>int\<close> of the first run of digits that
  \<^verbatim>\<open>re.search(r'(\d+)', ...)\<close> finds in it.
\<close>

definition clean_price_text :: "pystr \<Rightarrow> pystr" where
  "clean_price_text price_text =
     strip (replace (replace (replace price_text (lit '','') []) (lit ''$'') []) [0x5143] [])"

definition text_amount :: "pystr \<Rightarrow> number_read" where
  "text_amount price_text =
     (case search_digits (clean_price_text price_text) of
        None \<Rightarrow> Nothing
      | Some digits \<Rightarrow>
          (case int_of_digits digits of
             None \<Rightarrow> Raises
           | Some n \<Rightarrow> Number n))"

text \<open>
  Method 1, the loop over the price blocks, carrying \<^verbatim>\<open>prices\<close> and
  \<^verbatim>\<open>installment_prices\<close>. An exception ends the method with what has been collected.
\<close>

fun price_blocks :: "pystr list \<Rightarrow> int list \<times> int list \<Rightarrow> int list \<times> int list" where
  "price_blocks [] (prices, installment_prices) = (prices, installment_prices)"
| "price_blocks (raw # rest) (prices, installment_prices) =
     (let price_text = strip raw
      in if list_ex (\<lambda>keyword. contains keyword price_text) block_markers
         then
           (case text_amount price_text of
              Number potential_price \<Rightarrow>
                if 100 < potential_price \<and> potential_price < 10000000
                then price_blocks rest (prices, installment_prices @ [potential_price])
                else price_blocks rest (prices, installment_prices)
            | Nothing \<Rightarrow> price_blocks rest (prices, installment_prices)
            | Raises \<Rightarrow> (prices, installment_prices))
         else
           (case text_amount price_text of
              Number potential_price \<Rightarrow>
                if 100 < potential_price \<and> potential_price < 10000000
                then price_blocks rest (prices @ [potential_price], installment_prices)
                else price_blocks rest (prices, installment_prices)
            | Nothing \<Rightarrow> price_blocks rest (prices, installment_prices)
            | Raises \<Rightarrow> (prices, installment_prices)))"

text \<open>
  Method 2, over the lines of the element text. A dollar amount without a digit, or with
  too many, makes \<^verbatim>\<open>int\<close> raise, which ends the method with the prices found so far
  (the flag).
\<close>

fun dollar_amounts :: "pystr list \<Rightarrow> int list \<Rightarrow> int list \<times> bool" where
  "dollar_amounts [] prices = (prices, False)"
| "dollar_amounts (m # rest) prices =
     (case int_of_kept_digits m of
        None \<Rightarrow> (prices, True)
      | Some price_num \<Rightarrow>
          if 100 < price_num \<and> price_num < 10000000
          then dollar_amounts rest (prices @ [price_num])
          else dollar_amounts rest prices)"

fun text_lines :: "pystr list \<Rightarrow> int list \<Rightarrow> int list" where
  "text_lines [] prices = prices"
| "text_lines (line # rest) prices =
     (if list_ex (\<lambda>keyword. contains keyword line) line_markers
      then text_lines rest prices
      else
        (case dollar_amounts (findall_dollar line) prices of
           (prices, True) \<Rightarrow> prices
         | (prices, False) \<Rightarrow> text_lines rest prices))"

text \<open>Method 3, the sale-price block.\<close>

definition sale_price :: "pchome_element \<Rightarrow> int list" where
  "sale_price element =
     (case pe_sale_price element of
        None \<Rightarrow> []
      | Some raw \<Rightarrow>
          (case text_amount (strip raw) of
             Number potential_price \<Rightarrow> if potential_price > 100 then [potential_price] else []
           | Nothing \<Rightarrow> []
           | Raises \<Rightarrow> []))"

text \<open>The choice among the prices collected.\<close>

definition choose_price :: "int list \<Rightarrow> int list \<Rightarrow> int" where
  "choose_price prices installment_prices =
     (if prices \<noteq> []
      then
        (if length prices = 1 then hd prices
         else
           let candidate_price = py_min prices
           in if installment_prices \<noteq> [] \<and> candidate_price \<in> set installment_prices
              then
                (let valid_prices = filter (\<lambda>p. p \<notin> set installment_prices) prices
                 in if valid_prices \<noteq> [] then py_min valid_prices else py_max prices)
              else candidate_price)
      else 0)"

definition pchome_prices :: "pchome_element \<Rightarrow> int list \<times> int list" where
  "pchome_prices element =
     (let (prices, installment_prices) = price_blocks (pe_price_divs element) ([], []);
          prices = (if prices = [] then text_lines (split (pe_text element) [10]) prices
                    else prices);
          prices = (if prices = [] then sale_price element else prices)
      in (prices, installment_prices))"

definition pchome_listing_price :: "pchome_element \<Rightarrow> int" where
  "pchome_listing_price element =
     choose_price (fst (pchome_prices element)) (snd (pchome_prices element))"

definition img_selectors :: "pystr list" where
  "img_selectors =
     [lit ''img[data-regression='store_prodImg']'', lit ''a.c-prodInfoV2__link img'',
      lit ''div.c-prodInfoV2__head img'', lit ''img[src*='items']'',
      lit ''img[src*='pchome.com.tw']'', lit ''div.c-prodInfo__img img'',
      lit ''img[data-src*='items']'', lit ''img[data-src*='pchome']'',
      lit ''img[data-original*='items']'', lit ''img[alt]'', lit ''img'']"

definition usable_image :: "pystr \<Rightarrow> bool" where
  "usable_image url =
     (url \<noteq> [] \<and> \<not> contains (lit ''placeholder'') (lower url) \<and> url \<noteq> lit ''about:blank''
      \<and> \<not> startswith url (lit ''data:image'') \<and> length url > 10)"

text \<open>
  The loop \<^verbatim>\<open>for url in potential_urls\<close>. Its loop variable is the variable \<^verbatim>\<open>url\<close> that
  holds the product link, so the loop carries and returns it; the second component is
  the image it settles on, if any.
\<close>

fun attribute_loop ::
  "pystr \<Rightarrow> pystr option list \<Rightarrow> pystr option \<Rightarrow> pystr option \<times> pystr option" where
  "attribute_loop selector [] url = (url, None)"
| "attribute_loop selector (attribute # rest) url =
     (case attribute of
        None \<Rightarrow> attribute_loop selector rest None
      | Some [] \<Rightarrow> attribute_loop selector rest (Some [])
      | Some (c # cs) \<Rightarrow>
          (let url = (if contains (lit ''srcset'') selector \<or> contains (lit '','') (c # cs)
                      then hd (split (strip (hd (split (c # cs) (lit '','')))) (lit '' ''))
                      else c # cs)
           in if usable_image url then (Some url, Some url)
              else attribute_loop selector rest (Some url)))"

text \<open>The loop over the image selectors: the link variable it leaves, and \<^verbatim>\<open>image_url\<close>.\<close>

fun image_loop ::
  "pchome_element \<Rightarrow> pystr list \<Rightarrow> pystr option \<Rightarrow> pystr option \<times> pystr" where
  "image_loop element [] url = (url, [])"
| "image_loop element (selector # rest) url =
     (case pe_img element selector of
        None \<Rightarrow> image_loop element rest url
      | Some potential_urls \<Rightarrow>
          (case attribute_loop selector potential_urls url of
             (url, Some image_url) \<Rightarrow> (url, image_url)
           | (url, None) \<Rightarrow> image_loop element rest url))"

text \<open>The image URL made absolute, and the fallback on the element's own attributes.\<close>

definition pchome_absolute_image :: "pystr \<Rightarrow> pystr" where
  "pchome_absolute_image image_url =
     (if image_url = [] then image_url
      else if startswith image_url (lit ''//'') then lit ''https:'' @ image_url
      else if startswith image_url (lit ''/'') then lit ''https://24h.pchome.com.tw'' @ image_url
      else if \<not> startswith image_url (lit ''http'')
        then (if \<not> contains (lit ''pchome'') image_url
              then lit ''https://img.pchome.com.tw/'' @ image_url
              else lit ''https://'' @ image_url)
      else image_url)"

fun data_attribute_image :: "pchome_element \<Rightarrow> pystr list \<Rightarrow> pystr" where
  "data_attribute_image element [] = []"
| "data_attribute_image element (attr # rest) =
     (case pe_attr element attr of
        Some test_url \<Rightarrow>
          if test_url \<noteq> [] \<and> length test_url > 10 \<and> startswith test_url (lit ''http'')
          then test_url
          else data_attribute_image element rest
      | None \<Rightarrow> data_attribute_image element rest)"

definition pchome_image :: "pchome_element \<Rightarrow> pystr \<Rightarrow> pystr" where
  "pchome_image element found =
     (let image_url = pchome_absolute_image found
      in if image_url = []
         then data_attribute_image element
                [lit ''data-image'', lit ''data-img'', lit ''data-pic'', lit ''data-photo'']
         else image_url)"

text \<open>
  The body of the element loop up to the acceptance test. A missing link or title is
  caught by the handler of the loop body and skips the element; any other exception
  leaves the loop and the function, which then returns the products collected so far.
\<close>

datatype pchome_parse = Skip | Abort | Parsed listing

definition parse_pchome :: "pchome_element \<Rightarrow> pchome_parse" where
  "parse_pchome element =
     (case pe_link element of
        NoSuchElement \<Rightarrow> Skip
      | OtherException \<Rightarrow> Abort
      | Found None \<Rightarrow> Abort
      | Found (Some href) \<Rightarrow>
          (let url = (if \<not> startswith href (lit ''https://'')
                      then lit ''https://24h.pchome.com.tw'' @ href else href);
               sku = (case search_prod url of Some g \<Rightarrow> g | None \<Rightarrow> [])
           in case pe_title element of
                NoSuchElement \<Rightarrow> Skip
              | OtherException \<Rightarrow> Abort
              | Found raw \<Rightarrow>
                  (let (url, found) = image_loop element img_selectors (Some url)
                   in Parsed
                        \<lparr>l_title = strip raw,
                         l_price = pchome_listing_price element,
                         l_url = (case url of None \<Rightarrow> [] | Some u \<Rightarrow> u),
                         l_sku = sku,
                         l_image_url = pchome_image element found\<rparr>)))"

text \<open>\<^verbatim>\<open>if sku in seen_skus: ... elif url in [p['url'] for p in products]: ...\<close>\<close>

definition pchome_is_duplicate :: "scrape_state \<Rightarrow> listing \<Rightarrow> bool" where
  "pchome_is_duplicate s l =
     (if l_sku l \<in> seen_skus s then True
      else if l_url l \<in> set (map pr_url (products s)) then True
      else False)"

definition pchome_accept :: "scrape_state \<Rightarrow> listing \<Rightarrow> scrape_state" where
  "pchome_accept s l =
     s\<lparr>consecutive_duplicates := 0,
       seen_skus := insert (l_sku l) (seen_skus s),
       products := products s @
         [\<lparr>pr_id = product_id s, pr_title = l_title l, pr_price = l_price l,
           pr_image_url = l_image_url l, pr_url = l_url l, pr_platform = lit ''pchome'',
           pr_sku = l_sku l\<rparr>],
       product_id := product_id s + 1,
       page_products_count := page_products_count s + 1\<rparr>"

text \<open>
  The loop over the elements of one page; the flag tells that an exception left the
  function.
\<close>

fun pchome_elements ::
  "(nat \<Rightarrow> bool) \<Rightarrow> nat \<Rightarrow> pchome_element list \<Rightarrow> scrape_state \<Rightarrow> bool \<times> scrape_state" where
  "pchome_elements cancel_check max_products [] s = (False, s)"
| "pchome_elements cancel_check max_products (element # rest) s =
     (let s1 = s\<lparr>cancel_checks := cancel_checks s + 1\<rparr>
      in if cancel_check (cancel_checks s) then (False, s1)
         else if length (products s1) \<ge> max_products then (False, s1)
         else
           case parse_pchome element of
             Skip \<Rightarrow> pchome_elements cancel_check max_products rest s1
           | Abort \<Rightarrow> (True, s1)
           | Parsed l \<Rightarrow>
               if l_title l \<noteq> [] \<and> l_price l > 0 \<and> l_url l \<noteq> [] \<and> l_sku l \<noteq> []
               then
                 if pchome_is_duplicate s1 l
                 then
                   (let s2 = s1\<lparr>consecutive_duplicates := consecutive_duplicates s1 + 1\<rparr>
                    in if consecutive_duplicates s2 \<ge> 10 then (False, s2)
                       else pchome_elements cancel_check max_products rest s2)
                 else pchome_elements cancel_check max_products rest (pchome_accept s1 l)
               else pchome_elements cancel_check max_products rest s1)"

text \<open>
  What the browser shows for a page number: the wait for the listing times out, a driver
  call raises, or the listing elements, together with whether the next-page button is
  found afterwards.
\<close>

datatype pchome_page =
    PageTimeout
  | PChomePageRaised
  | PChomeListing "pchome_element list" bool

record pchome_site =
  pchome_driver_starts :: bool
  pchome_initial_load :: bool
  pchome_cancel_check :: "nat \<Rightarrow> bool"
  pchome_pages :: "nat \<Rightarrow> pchome_page"

text \<open>The end of a page: the stopping rules, the target, then the click on the next page.\<close>

definition pchome_next_page :: "nat \<Rightarrow> bool \<Rightarrow> scrape_state \<Rightarrow> flow \<times> scrape_state" where
  "pchome_next_page max_products next_button s =
     (if length (products s) \<ge> max_products then (Stop, s)
      else if next_button
        then (Continue, s\<lparr>page := page s + 1,
                           requested_pages := requested_pages s @ [page s + 1]\<rparr>)
      else (Stop, s))"

definition pchome_page_end ::
  "nat \<Rightarrow> nat \<Rightarrow> bool \<Rightarrow> scrape_state \<Rightarrow> flow \<times> scrape_state" where
  "pchome_page_end n_elements max_products next_button s =
     (if page_products_count s = 0
      then
        (let s1 = s\<lparr>consecutive_empty_pages := consecutive_empty_pages s + 1\<rparr>
         in if page s1 = 1 \<and> n_elements < 10 then (Stop, s1)
            else if n_elements < 10 then (Stop, s1)
            else if page s1 > 1 \<and> n_elements \<ge> 10 then (Stop, s1)
            else if consecutive_empty_pages s1 \<ge> 2 then (Stop, s1)
            else pchome_next_page max_products next_button s1)
      else pchome_next_page max_products next_button (s\<lparr>consecutive_empty_pages := 0\<rparr>))"

definition pchome_page_step ::
  "pchome_site \<Rightarrow> nat \<Rightarrow> scrape_state \<Rightarrow> flow \<times> scrape_state" where
  "pchome_page_step site max_products s =
     (let s1 = s\<lparr>cancel_checks := cancel_checks s + 1\<rparr>
      in if pchome_cancel_check site (cancel_checks s) then (Stop, s1)
         else
           case pchome_pages site (page s1) of
             PageTimeout \<Rightarrow> (Stop, s1)
           | PChomePageRaised \<Rightarrow> (Stop, s1)
           | PChomeListing product_elements next_button \<Rightarrow>
               (case pchome_elements (pchome_cancel_check site) max_products product_elements
                       (s1\<lparr>page_products_count := 0, consecutive_duplicates := 0\<rparr>) of
                  (True, s2) \<Rightarrow> (Stop, s2)
                | (False, s2) \<Rightarrow>
                    pchome_page_end (length product_elements) max_products next_button s2))"

lemma pchome_accept_fields [simp]:
  "length (products (pchome_accept s l)) = Suc (length (products s))"
  "page_products_count (pchome_accept s l) = Suc (page_products_count s)"
  "page (pchome_accept s l) = page s"
  "requested_pages (pchome_accept s l) = requested_pages s"
  by (simp_all add: pchome_accept_def)

lemma pchome_elements_count:
  "length (products (snd (pchome_elements c m es s))) + page_products_count s =
     length (products s) + page_products_count (snd (pchome_elements c m es s))
   \<and> page (snd (pchome_elements c m es s)) = page s
   \<and> requested_pages (snd (pchome_elements c m es s)) = requested_pages s"
proof (induction es arbitrary: s)
  case Nil
  show ?case by simp
next
  case (Cons e es)
  let ?s1 = "s\<lparr>cancel_checks := cancel_checks s + 1\<rparr>"
  show ?case
    using Cons.IH [of ?s1]
      Cons.IH [of "?s1\<lparr>consecutive_duplicates := consecutive_duplicates ?s1 + 1\<rparr>"]
      Cons.IH [of "pchome_accept ?s1 l" for l]
    by (auto simp: Let_def split: pchome_parse.splits)
qed

lemma pchome_page_step_decreases:
  assumes "pchome_page_step site m s = (Continue, s')" and "length (products s) < m"
  shows "scrape_measure m s' < scrape_measure m s"
proof -
  let ?s1 = "s\<lparr>cancel_checks := cancel_checks s + 1\<rparr>"
  from assms(1) obtain els next_button s2 where
    lst: "pchome_pages site (page s) = PChomeListing els next_button"
    and el: "pchome_elements (pchome_cancel_check site) m els
          (?s1\<lparr>page_products_count := 0, consecutive_duplicates := 0\<rparr>) = (False, s2)"
    and pe: "pchome_page_end (length els) m next_button s2 = (Continue, s')"
    by (auto simp: pchome_page_step_def Let_def split: if_splits pchome_page.splits bool.splits
        prod.splits)
  have len: "length (products s2) = length (products s) + page_products_count s2"
    and pg: "page s2 = page s"
    using pchome_elements_count [of "pchome_cancel_check site" m els
        "?s1\<lparr>page_products_count := 0, consecutive_duplicates := 0\<rparr>"]
    unfolding el by simp_all
  from pe show ?thesis
    using len pg assms(2)
    by (auto simp: pchome_page_end_def pchome_next_page_def scrape_measure_def Let_def
        split: if_splits)
qed

text \<open>The page loop \<^verbatim>\<open>while len(products) < max_products\<close>.\<close>

function pchome_loop :: "pchome_site \<Rightarrow> nat \<Rightarrow> scrape_state \<Rightarrow> scrape_state" where
  "pchome_loop site max_products s =
     (if length (products s) < max_products
      then (case pchome_page_step site max_products s of
              (Stop, s') \<Rightarrow> s'
            | (Continue, s') \<Rightarrow> pchome_loop site max_products s')
      else s)"
  by pat_completeness auto
termination
proof (relation "measure (\<lambda>(site, max_products, s). scrape_measure max_products s)", goal_cases)
  case 1
  show ?case by simp
next
  case (2 site max_products s x1 s')
  then show ?case
    using pchome_page_step_decreases [of site max_products s s'] by simp
qed

declare pchome_loop.simps [simp del]

text \<open>
  The whole run: the browser is started, the first results page is loaded (the function
  returns the empty list when that fails), then the page loop runs. Every later exit
  returns \<^verbatim>\<open>products\<close>.
\<close>

definition pchome_first_page :: scrape_state where
  "pchome_first_page = initial_state\<lparr>requested_pages := [1]\<rparr>"

definition pchome_run :: "pchome_site \<Rightarrow> nat \<Rightarrow> scrape_state" where
  "pchome_run site max_products =
     (if \<not> pchome_driver_starts site then initial_state
      else if \<not> pchome_initial_load site then pchome_first_page
      else pchome_loop site max_products pchome_first_page)"

definition fetch_products_for_pchome :: "pchome_site \<Rightarrow> nat \<Rightarrow> product list" where
  "fetch_products_for_pchome site max_products = products (pchome_run site max_products)"

section \<open>Scrapers: what the properties speak about\<close>

text \<open>
  The first page as the page loops meet it: the state in which its element loop starts
  (one call of \<^verbatim>\<open>cancel_check\<close> made, page 1 asked for, nothing collected, the per-page
  counters at 0), and the value of \<^verbatim>\<open>page_products_count\<close> when that loop has ended over
  the elements the page shows.
\<close>

definition momo_page_one_entry :: scrape_state where
  "momo_page_one_entry =
     initial_state\<lparr>cancel_checks := 1, requested_pages := [1], page_products_count := 0,
                    consecutive_duplicates := 0\<rparr>"

definition momo_page_one_count :: "momo_site \<Rightarrow> nat \<Rightarrow> momo_element list \<Rightarrow> nat" where
  "momo_page_one_count site max_products product_elements =
     page_products_count
       (momo_elements (momo_cancel_check site) max_products product_elements momo_page_one_entry)"

definition pchome_page_one_entry :: scrape_state where
  "pchome_page_one_entry =
     pchome_first_page\<lparr>cancel_checks := 1, page_products_count := 0,
                        consecutive_duplicates := 0\<rparr>"

definition pchome_page_one_count :: "pchome_site \<Rightarrow> nat \<Rightarrow> pchome_element list \<Rightarrow> nat" where
  "pchome_page_one_count site max_products product_elements =
     page_products_count
       (snd (pchome_elements (pchome_cancel_check site) max_products product_elements
               pchome_page_one_entry))"

text \<open>
  The invariant of both scrapes: the URLs collected are pairwise different, so are the
  non-empty SKUs, and \<^verbatim>\<open>seen_skus\<close> holds exactly the non-empty SKUs collected.
\<close>

definition dedup_inv :: "scrape_state \<Rightarrow> bool" where
  "dedup_inv s \<longleftrightarrow>
     distinct (map pr_url (products s))
     \<and> distinct (filter (\<lambda>sku. sku \<noteq> []) (map pr_sku (products s)))
     \<and> seen_skus s = set (filter (\<lambda>sku. sku \<noteq> []) (map pr_sku (products s)))"

text \<open>The invariant of the PChome scrape: no product collected has an empty SKU.\<close>

definition skus_present :: "scrape_state \<Rightarrow> bool" where
  "skus_present s \<longleftrightarrow> [] \<notin> set (map pr_sku (products s))"


text \<open>
  The MOMO price rule in words: the values of a text are the numbers its digit runs
  write once the commas are removed, those above 10; a text is overlong when one of the
  runs has more digits than \<^verbatim>\<open>int\<close> converts; the price texts of an element are the
  texts under its price selectors, in selector order.
\<close>

definition price_values :: "pystr \<Rightarrow> int list" where
  "price_values text =
     filter (\<lambda>n. 10 < n) (map digits_number (findall_digits (replace text (lit '','') [])))"

definition overlong :: "pystr \<Rightarrow> bool" where
  "overlong text =
     list_ex (\<lambda>run. length run > int_max_str_digits)
       (findall_digits (replace text (lit '','') []))"

definition momo_price_texts :: "momo_element \<Rightarrow> pystr list" where
  "momo_price_texts element = concat (map (me_price_texts element) price_selectors)"

text \<open>
  The PChome price rule in words. An amount is in the window when it lies strictly
  between 100 and 10,000,000. The price blocks are read, stripped, up to the first whose
  number does not convert; of those, the blocks without an instalment marker give the
  candidates and the blocks with one the instalment amounts, each block its first number
  when in the window. The lines of the element text without a marker give the dollar
  amounts, read up to the first that does not convert, those in the window.
\<close>

definition in_price_window :: "int \<Rightarrow> bool" where
  "in_price_window n = (100 < n \<and> n < 10000000)"

definition has_marker :: "pystr list \<Rightarrow> pystr \<Rightarrow> bool" where
  "has_marker markers text = list_ex (\<lambda>keyword. contains keyword text) markers"

definition window_amounts :: "pystr list \<Rightarrow> int list" where
  "window_amounts texts =
     filter in_price_window
       (concat (map (\<lambda>text. case text_amount text of Number n \<Rightarrow> [n] | _ \<Rightarrow> []) texts))"

definition blocks_read :: "pchome_element \<Rightarrow> pystr list" where
  "blocks_read element =
     takeWhile (\<lambda>block. text_amount block \<noteq> Raises) (map strip (pe_price_divs element))"

definition block_candidates :: "pchome_element \<Rightarrow> int list" where
  "block_candidates element =
     window_amounts (filter (\<lambda>block. \<not> has_marker block_markers block) (blocks_read element))"

definition block_instalments :: "pchome_element \<Rightarrow> int list" where
  "block_instalments element =
     window_amounts (filter (has_marker block_markers) (blocks_read element))"

definition line_candidates :: "pchome_element \<Rightarrow> int list" where
  "line_candidates element =
     filter in_price_window
       (List.map_filter int_of_kept_digits
          (takeWhile (\<lambda>amount. int_of_kept_digits amount \<noteq> None)
             (concat (map findall_dollar
                (filter (\<lambda>line. \<not> has_marker line_markers line)
                   (split (pe_text element) [10]))))))"

section \<open>Example data\<close>

text \<open>
  The ranking scenario of the specification: four judged matches that differ only in
  target price and verdict.
\<close>

definition scenario_item :: "real \<Rightarrow> bool \<Rightarrow> judged" where
  "scenario_item p b =
     \<lparr>match = \<lparr>target_id = [], target_title = [], target_price = Some (PNum p),
                target_image = [], target_url = [], similarity = 1\<rparr>,
      result = JObj [(lit ''is_match'', JBool b)], is_match = JBool b\<rparr>"









text \<open>
  Two one-product catalogues, an encoder that keeps the text it is given, and two
  similarity functions on such texts: a constant one, and one that recognises a
  \<open>passage\<close> text as source against a \<open>query\<close> text as target.
\<close>

definition sample_momo_df :: "product_row list" where
  "sample_momo_df =
     [\<lparr>p_id = 1, p_title = (lit ''A''), p_price = Some (FNum 100), p_image = Some [],
       p_url = Some (lit ''https://www.momoshop.com.tw/goods/GoodsDetail.jsp?i_code=1''),
       p_sku = Some (lit ''1'')\<rparr>]"

definition sample_pchome_df :: "product_row list" where
  "sample_pchome_df =
     [\<lparr>p_id = 1, p_title = (lit ''B''), p_price = Some (FNum 120), p_image = Some [],
       p_url = Some (lit ''https://24h.pchome.com.tw/prod/X''), p_sku = Some (lit ''X'')\<rparr>]"



text \<open>
  A MOMO results page that answers the first listing selector with the given elements,
  and a shop whose first page is that page and whose other pages do not load.
\<close>

definition one_page_listing :: "momo_element list \<Rightarrow> pystr \<Rightarrow> momo_element list option" where
  "one_page_listing elements selector =
     (if selector = lit ''li.listAreaLi'' then Some elements else None)"

definition momo_page_one :: "momo_element list \<Rightarrow> nat \<Rightarrow> momo_page" where
  "momo_page_one elements n =
     (if n = 1 then Listing None (one_page_listing elements) else LoadFailed)"

definition never_cancelled :: "nat \<Rightarrow> bool" where
  "never_cancelled k = False"

definition momo_one_page :: "momo_element list \<Rightarrow> momo_site" where
  "momo_one_page elements =
     \<lparr>momo_driver_starts = True, momo_cancel_check = never_cancelled,
      momo_pages = momo_page_one elements\<rparr>"

text \<open>
  A user who cancels while the first page is being parsed: the check before the page
  answers no, the check at the first element answers yes. The shop shows the given
  elements on every page.
\<close>

definition cancelled_at_first_element :: "nat \<Rightarrow> bool" where
  "cancelled_at_first_element k = (k = 1)"

definition momo_every_page :: "momo_element list \<Rightarrow> nat \<Rightarrow> momo_page" where
  "momo_every_page elements n = Listing None (one_page_listing elements)"

definition momo_cancelled_shop :: "momo_element list \<Rightarrow> momo_site" where
  "momo_cancelled_shop elements =
     \<lparr>momo_driver_starts = True, momo_cancel_check = cancelled_at_first_element,
      momo_pages = momo_every_page elements\<rparr>"

text \<open>
  A MOMO product card with a title under the first title selector, one price text under
  \<^verbatim>\<open>.price\<close>, a link that only the last link selector finds, and no hidden product id.
\<close>

definition card_title :: "pystr \<Rightarrow> pystr \<Rightarrow> pystr dom" where
  "card_title title_text selector =
     (if selector = lit ''h3.prdName'' then Found title_text else NoSuchElement)"

definition card_prices :: "pystr \<Rightarrow> pystr \<Rightarrow> pystr list" where
  "card_prices price_text selector = (if selector = lit ''.price'' then [price_text] else [])"

definition card_href :: "pystr \<Rightarrow> pystr \<Rightarrow> pystr option dom" where
  "card_href href selector =
     (if selector = lit ''a[href]'' then Found (Some href) else NoSuchElement)"

definition momo_card :: "pystr \<Rightarrow> pystr \<Rightarrow> pystr \<Rightarrow> momo_element" where
  "momo_card title_text price_text href =
     \<lparr>me_text = title_text @ lit '' '' @ price_text,
      me_title = card_title title_text,
      me_price_texts = card_prices price_text,
      me_href = card_href href,
      me_view_prod_id = NoSuchElement,
      me_image_url = []\<rparr>"

text \<open>A card whose only link is a search link, without product code or path segment.\<close>

definition momo_search_link_card :: momo_element where
  "momo_search_link_card =
     momo_card (lit ''Apple iPhone 15'') (lit ''$29,900'')
       (lit ''https://www.momoshop.com.tw/search/?keyword=a'')"


text \<open>
  A card with a badge under \<^verbatim>\<open>.price b\<close> that reads 10, and under \<^verbatim>\<open>.price\<close> a
  price text written in full-width digits (500) followed by one that reads 9,999.
\<close>

definition badge_prices :: "pystr \<Rightarrow> pystr list" where
  "badge_prices selector =
     (if selector = lit ''.price b'' then [lit ''10'']
      else if selector = lit ''.price'' then [[65301, 65296, 65296], lit ''$9,999'']
      else [])"

definition momo_badge_card :: momo_element where
  "momo_badge_card =
     \<lparr>me_text = lit ''Apple iPhone 15'',
      me_title = card_title (lit ''Apple iPhone 15''),
      me_price_texts = badge_prices,
      me_href = card_href (lit ''/goods/GoodsDetail.jsp?i_code=124''),
      me_view_prod_id = NoSuchElement,
      me_image_url = []\<rparr>"

text \<open>
  A PChome product card with link, title and price blocks but no image and no sale-price
  block, and a shop whose first page shows given cards and a next-page button.
\<close>

definition no_image :: "pystr \<Rightarrow> pystr option list option" where
  "no_image selector = None"

definition no_attribute :: "pystr \<Rightarrow> pystr option" where
  "no_attribute attr = None"

definition pchome_card :: "pystr \<Rightarrow> pystr list \<Rightarrow> pystr \<Rightarrow> pchome_element" where
  "pchome_card title_text price_blocks_text href =
     \<lparr>pe_link = Found (Some href), pe_title = Found title_text,
      pe_price_divs = price_blocks_text, pe_text = title_text, pe_sale_price = None,
      pe_img = no_image, pe_attr = no_attribute\<rparr>"

definition pchome_phone_card :: pchome_element where
  "pchome_phone_card =
     pchome_card (lit ''Apple iPhone 15'') [lit ''$29,900'', lit ''$27,500'', lit ''$2,291 x 12'']
       (lit ''/prod/DYAJ-A900'')"




text \<open>A card on which reading the product link raises something other than a missing element.\<close>

definition pchome_broken_card :: pchome_element where
  "pchome_broken_card = (pchome_card (lit ''Apple'') [] [])\<lparr>pe_link := OtherException\<rparr>"

definition pchome_page_one :: "pchome_element list \<Rightarrow> nat \<Rightarrow> pchome_page" where
  "pchome_page_one elements n =
     (if n = 1 then PChomeListing elements True else PageTimeout)"

definition pchome_one_page :: "pchome_element list \<Rightarrow> pchome_site" where
  "pchome_one_page elements =
     \<lparr>pchome_driver_starts = True, pchome_initial_load = True,
      pchome_cancel_check = never_cancelled, pchome_pages = pchome_page_one elements\<rparr>"

text \<open>A shop that shows the given cards, and a next-page button, on every page.\<close>

definition pchome_every_page :: "pchome_element list \<Rightarrow> nat \<Rightarrow> pchome_page" where
  "pchome_every_page elements n = PChomeListing elements True"

definition pchome_endless_shop :: "pchome_element list \<Rightarrow> pchome_site" where
  "pchome_endless_shop elements =
     \<lparr>pchome_driver_starts = True, pchome_initial_load = True,
      pchome_cancel_check = never_cancelled, pchome_pages = pchome_every_page elements\<rparr>"

definition pchome_store_link_card :: pchome_element where
  "pchome_store_link_card =
     pchome_card (lit ''Apple Store'') [lit ''$29,900''] (lit ''/store/DYAJ'')"

section \<open>Properties of the result ranker\<close>

lemma price_trichotomy:
  "(price_less a b \<and> a \<noteq> b \<and> \<not> price_less b a) \<or>
   (\<not> price_less a b \<and> a = b \<and> \<not> price_less b a) \<or>
   (\<not> price_less a b \<and> a \<noteq> b \<and> price_less b a)"
  by (cases a; cases b) auto

lemma price_less_trans: "price_less a b \<Longrightarrow> price_less b c \<Longrightarrow> price_less a c"
  by (cases a; cases b; cases c) auto

lemma mset_three_way:
  "mset (filter (\<lambda>x. price_less (item_price x) p) arr)
   + mset (filter (\<lambda>x. item_price x = p) arr)
   + mset (filter (\<lambda>x. price_less p (item_price x)) arr) = mset arr"
proof (induction arr)
  case Nil
  show ?case by simp
next
  case (Cons x xs)
  show ?case
    using Cons.IH price_trichotomy [of "item_price x" p] by auto
qed

lemma mset_quicksort: "mset (quicksort arr) = mset arr"
proof (induction arr rule: quicksort.induct)
  case (1 arr)
  show ?case
  proof (cases "length arr \<le> 1")
    case True
    then show ?thesis by (simp add: quicksort.simps)
  next
    case False
    let ?p = "pivot_price_of (arr ! (length arr div 2))"
    have "mset (quicksort arr) =
        mset (filter (\<lambda>x. price_less (item_price x) ?p) arr)
      + mset (filter (\<lambda>x. item_price x = ?p) arr)
      + mset (filter (\<lambda>x. price_less ?p (item_price x)) arr)"
      using False 1 by (subst quicksort.simps) (simp add: Let_def)
    then show ?thesis by (simp only: mset_three_way)
  qed
qed

lemma set_quicksort: "set (quicksort arr) = set arr"
  by (metis mset_quicksort set_mset_mset)

lemma sorted_const_key:
  "\<forall>x\<in>set xs. f x = p \<Longrightarrow> sorted_wrt price_le (map f xs)"
  by (induction xs) (auto simp: price_le_def)

lemma sorted_quicksort: "sorted_wrt price_le (map item_price (quicksort arr))"
proof (induction arr rule: quicksort.induct)
  case (1 arr)
  show ?case
  proof (cases "length arr \<le> 1")
    case True
    then have "arr = [] \<or> (\<exists>x. arr = [x])"
      by (cases arr) auto
    then show ?thesis using True by (auto simp: quicksort.simps)
  next
    case False
    define p where "p = pivot_price_of (arr ! (length arr div 2))"
    define l where "l = filter (\<lambda>x. price_less (item_price x) p) arr"
    define m where "m = filter (\<lambda>x. item_price x = p) arr"
    define r where "r = filter (\<lambda>x. price_less p (item_price x)) arr"
    have eq: "quicksort arr = quicksort l @ m @ quicksort r"
      using False unfolding l_def m_def r_def p_def
      by (subst quicksort.simps) (simp add: Let_def)
    have sl: "sorted_wrt price_le (map item_price (quicksort l))"
      using "1.IH"(1) False unfolding l_def p_def by simp
    have sr: "sorted_wrt price_le (map item_price (quicksort r))"
      using "1.IH"(2) False unfolding r_def p_def by simp
    have sm: "sorted_wrt price_le (map item_price m)"
      by (rule sorted_const_key [where p = p]) (simp add: m_def)
    have L: "\<And>x. x \<in> set (quicksort l) \<Longrightarrow> price_less (item_price x) p"
      by (simp add: set_quicksort l_def)
    have M: "\<And>x. x \<in> set m \<Longrightarrow> item_price x = p"
      by (simp add: m_def)
    have R: "\<And>x. x \<in> set (quicksort r) \<Longrightarrow> price_less p (item_price x)"
      by (simp add: set_quicksort r_def)
    have lm: "\<forall>x\<in>set (quicksort l). \<forall>y\<in>set m. price_le (item_price x) (item_price y)"
      using L M price_trichotomy unfolding price_le_def by metis
    have lr: "\<forall>x\<in>set (quicksort l). \<forall>y\<in>set (quicksort r).
                price_le (item_price x) (item_price y)"
      using L R price_trichotomy price_less_trans unfolding price_le_def by metis
    have mr: "\<forall>x\<in>set m. \<forall>y\<in>set (quicksort r). price_le (item_price x) (item_price y)"
      using R M price_trichotomy unfolding price_le_def by metis
    show ?thesis
      unfolding eq using sl sr sm lm lr mr
      by (auto simp: sorted_wrt_append)
  qed
qed

lemma filter_quicksort_same:
  "filter P (quicksort (filter P xs)) = quicksort (filter P xs)"
  by (rule filter_True) (simp add: set_quicksort)

lemma filter_quicksort_neg:
  "filter P (quicksort (filter (\<lambda>x. \<not> P x) xs)) = []"
  by (simp add: filter_empty_conv set_quicksort)

lemma filter_neg_quicksort:
  "filter (\<lambda>x. \<not> P x) (quicksort (filter P xs)) = []"
  by (simp add: filter_empty_conv set_quicksort)

lemma quicksort_short: "length arr \<le> 1 \<Longrightarrow> quicksort arr = arr"
  by (simp add: quicksort.simps)

lemma quicksort_by_price_eq:
  "quicksort_by_price items =
     quicksort (filter (\<lambda>item. truthy (is_match item)) items)
     @ quicksort (filter (\<lambda>item. \<not> truthy (is_match item)) items)"
proof (cases "length items \<le> 1")
  case False
  then show ?thesis by (simp add: quicksort_by_price_def Let_def)
next
  case True
  then have "items = [] \<or> (\<exists>x. items = [x])"
    by (cases items) auto
  then show ?thesis
    by (auto simp: quicksort_by_price_def quicksort_short)
qed

lemma quicksort_by_price_matched:
  "filter (\<lambda>item. truthy (is_match item)) (quicksort_by_price items) =
     quicksort (filter (\<lambda>item. truthy (is_match item)) items)"
  by (simp add: quicksort_by_price_eq filter_quicksort_same filter_quicksort_neg)

lemma quicksort_by_price_unmatched:
  "filter (\<lambda>item. \<not> truthy (is_match item)) (quicksort_by_price items) =
     quicksort (filter (\<lambda>item. \<not> truthy (is_match item)) items)"
  by (simp add: quicksort_by_price_eq filter_quicksort_same filter_neg_quicksort)

lemma mset_quicksort_by_price: "mset (quicksort_by_price items) = mset items"
  by (simp add: quicksort_by_price_eq mset_quicksort)


lemma scenario_ranked:
  "quicksort_by_price
     [scenario_item 500 True, scenario_item 100 False, scenario_item 50 True,
      scenario_item 9999 False] =
     [scenario_item 50 True, scenario_item 500 True, scenario_item 100 False,
      scenario_item 9999 False]"
  by (simp add: scenario_item_def quicksort_by_price_def quicksort.simps item_price_def
      pivot_price_of_def Let_def)

text \<open>
  Claim C4, as the specification states it, fails on its own scenario: for the matches
  (500, matched), (100, unmatched), (50, matched), (9999, unmatched) the ranker does not
  return the three-element list 50, 500, 9999; the unmatched item priced 100 is kept.
\<close>

theorem C4_scenario_counterexample:
  "quicksort_by_price
     [scenario_item 500 True, scenario_item 100 False, scenario_item 50 True,
      scenario_item 9999 False] \<noteq>
     [scenario_item 50 True, scenario_item 500 True, scenario_item 9999 False]"
  by (simp add: scenario_ranked)

text \<open>
  Claim C4 (amended): for every sequence of judged matches the ranker returns a
  rearrangement of all of them (none dropped, none added), consisting of the items with a
  true \<open>is_match\<close> followed by the items with a false one, each part ascending by
  target price, where an absent, \<^verbatim>\<open>None\<close> or NaN price counts as positive infinity and
  so is not below any other price; on the scenario the output is 50 (matched),
  500 (matched), 100 (unmatched), 9999 (unmatched).
\<close>

theorem C4_ranker_matched_first_price_ascending:
  "mset (quicksort_by_price items) = mset items
   \<and> quicksort_by_price items =
       filter (\<lambda>item. truthy (is_match item)) (quicksort_by_price items)
       @ filter (\<lambda>item. \<not> truthy (is_match item)) (quicksort_by_price items)
   \<and> sorted_wrt price_le
        (map item_price (filter (\<lambda>item. truthy (is_match item)) (quicksort_by_price items)))
   \<and> sorted_wrt price_le
        (map item_price (filter (\<lambda>item. \<not> truthy (is_match item)) (quicksort_by_price items)))
   \<and> (isna (target_price (match x)) \<longrightarrow> item_price x = PosInf \<and> price_le k PosInf)
   \<and> quicksort_by_price
        [scenario_item 500 True, scenario_item 100 False, scenario_item 50 True,
         scenario_item 9999 False] =
       [scenario_item 50 True, scenario_item 500 True, scenario_item 100 False,
        scenario_item 9999 False]"
proof -
  have "mset (quicksort_by_price items) = mset items"
    by (rule mset_quicksort_by_price)
  moreover have "quicksort_by_price items =
       filter (\<lambda>item. truthy (is_match item)) (quicksort_by_price items)
       @ filter (\<lambda>item. \<not> truthy (is_match item)) (quicksort_by_price items)"
    by (simp only: quicksort_by_price_matched quicksort_by_price_unmatched)
       (rule quicksort_by_price_eq)
  moreover have "isna (target_price (match x)) \<longrightarrow> item_price x = PosInf \<and> price_le k PosInf"
    by (simp add: item_price_def price_le_def)
  moreover have "sorted_wrt price_le
        (map item_price (filter (\<lambda>item. truthy (is_match item)) (quicksort_by_price items)))"
    by (simp only: quicksort_by_price_matched sorted_quicksort)
  moreover have "sorted_wrt price_le
        (map item_price (filter (\<lambda>item. \<not> truthy (is_match item)) (quicksort_by_price items)))"
    by (simp only: quicksort_by_price_unmatched sorted_quicksort)
  ultimately show ?thesis
    using scenario_ranked by blast
qed

theorem C4_ranker_witness:
  "isna (target_price (match (scenario_item 50 True\<lparr>match := (match (scenario_item 50 True))\<lparr>target_price := Some PNaN\<rparr>\<rparr>)))
   \<and> item_price (scenario_item 50 True\<lparr>match := (match (scenario_item 50 True))\<lparr>target_price := Some PNaN\<rparr>\<rparr>) = PosInf
   \<and> price_le (Fin 9999) PosInf"
  using C4_ranker_matched_first_price_ascending
    [of "[]" "scenario_item 50 True\<lparr>match := (match (scenario_item 50 True))\<lparr>target_price := Some PNaN\<rparr>\<rparr>" "Fin 9999"]
  by (simp add: scenario_item_def)

section \<open>Properties of the verdict aggregator and its caller\<close>














section \<open>Properties of the similarity matcher\<close>







lemma matches_above_zip:
  "matches_above thr ts ss =
     map (\<lambda>(t, s). target_match t s) (filter (\<lambda>(t, s). s \<ge> thr) (zip ts ss))"
  by (induction thr ts ss rule: matches_above.induct) simp_all







lemma sort_by_similarity_props:
  "mset (sort_by_similarity ms) = mset ms"
  "sorted_wrt (\<lambda>a b. similarity a \<ge> similarity b) (sort_by_similarity ms)"
proof -
  show "mset (sort_by_similarity ms) = mset ms"
    by (simp add: sort_by_similarity_def)
  have "sorted (map (\<lambda>x. - similarity x) (sort_by_similarity ms))"
    by (simp add: sort_by_similarity_def)
  then show "sorted_wrt (\<lambda>a b. similarity a \<ge> similarity b) (sort_by_similarity ms)"
    by (simp add: sorted_map)
qed















text \<open>
  Claim C8, as the specification states it, fails in the direction
  \<^verbatim>\<open>pchome_to_momo\<close>: the source there is the PChome product, whose title is not
  embedded with the prefix "query: ".
\<close>

theorem C8_source_prefix_counterexample:
  "source_texts sample_momo_df sample_pchome_df (lit ''pchome_to_momo'') \<noteq> [(lit ''query: B'')]"
  by (simp add: source_texts_def sample_pchome_df_def prepare_text_def)

text \<open>
  Claim C8 (amended): the prefix follows the platform, not the role. A MOMO title is
  embedded as "query: " followed by the title and a PChome title as "passage: " followed
  by the title, in both directions; so in \<^verbatim>\<open>momo_to_pchome\<close> the source texts carry
  "query: " and the target texts "passage: ", and in \<^verbatim>\<open>pchome_to_momo\<close> the source
  texts carry "passage: " and the target texts "query: ". These are the texts whose
  embeddings the matcher compares.
\<close>

theorem C8_prefix_by_platform:
  "prepare_text title (lit ''momo'') = (lit ''query: '') @ title
   \<and> prepare_text title (lit ''pchome'') = (lit ''passage: '') @ title
   \<and> source_texts momo_df pchome_df (lit ''momo_to_pchome'') = map (\<lambda>row. (lit ''query: '') @ p_title row) momo_df
   \<and> target_texts momo_df pchome_df (lit ''momo_to_pchome'') = map (\<lambda>row. (lit ''passage: '') @ p_title row) pchome_df
   \<and> source_texts momo_df pchome_df (lit ''pchome_to_momo'') = map (\<lambda>row. (lit ''passage: '') @ p_title row) pchome_df
   \<and> target_texts momo_df pchome_df (lit ''pchome_to_momo'') = map (\<lambda>row. (lit ''query: '') @ p_title row) momo_df
   \<and> calculate_similarities_in_memory encode cosine_similarity momo_df pchome_df direction =
       (if momo_df = [] \<or> pchome_df = [] then Map.empty
        else match_rows 0.739465 cosine_similarity
               (if direction = (lit ''momo_to_pchome'') then momo_df else pchome_df)
               (get_batch_embeddings encode (source_texts momo_df pchome_df direction))
               (if direction = (lit ''momo_to_pchome'') then pchome_df else momo_df)
               (get_batch_embeddings encode (target_texts momo_df pchome_df direction)))"
  by (simp add: prepare_text_def source_texts_def target_texts_def
      calculate_similarities_in_memory_def Let_def)

section \<open>Properties of the scrapers\<close>

subsection \<open>Deduplication\<close>

lemma dedup_inv_initial: "dedup_inv initial_state"
  by (simp add: dedup_inv_def initial_state_def)

lemma dedup_inv_cong:
  "products s' = products s \<Longrightarrow> seen_skus s' = seen_skus s \<Longrightarrow> dedup_inv s' = dedup_inv s"
  by (simp add: dedup_inv_def)

lemma dedup_inv_momo_accept:
  "dedup_inv s \<Longrightarrow> \<not> momo_is_duplicate s l \<Longrightarrow> dedup_inv (momo_accept s l)"
  by (auto simp: dedup_inv_def momo_accept_def momo_is_duplicate_def split: if_splits)

lemma dedup_inv_pchome_accept:
  "dedup_inv s \<Longrightarrow> \<not> pchome_is_duplicate s l \<Longrightarrow> l_sku l \<noteq> [] \<Longrightarrow>
   dedup_inv (pchome_accept s l)"
  by (auto simp: dedup_inv_def pchome_accept_def pchome_is_duplicate_def split: if_splits)

lemma dedup_inv_momo_elements:
  "dedup_inv s \<Longrightarrow> dedup_inv (momo_elements c m es s)"
proof (induction es arbitrary: s)
  case Nil
  then show ?case by simp
next
  case (Cons e es)
  let ?s1 = "s\<lparr>cancel_checks := cancel_checks s + 1\<rparr>"
  let ?s2 = "?s1\<lparr>consecutive_duplicates := consecutive_duplicates ?s1 + 1\<rparr>"
  have i1: "dedup_inv ?s1" using Cons.prems by (simp add: dedup_inv_def)
  have i2: "dedup_inv ?s2" using Cons.prems by (simp add: dedup_inv_def)
  show ?case
    using i1 i2 Cons.IH [OF i1] Cons.IH [OF i2]
      Cons.IH [OF dedup_inv_momo_accept [OF i1]]
    by (auto simp: Let_def split: option.splits)
qed

lemma dedup_inv_pchome_elements:
  "dedup_inv s \<Longrightarrow> dedup_inv (snd (pchome_elements c m es s))"
proof (induction es arbitrary: s)
  case Nil
  then show ?case by simp
next
  case (Cons e es)
  let ?s1 = "s\<lparr>cancel_checks := cancel_checks s + 1\<rparr>"
  let ?s2 = "?s1\<lparr>consecutive_duplicates := consecutive_duplicates ?s1 + 1\<rparr>"
  have i1: "dedup_inv ?s1" using Cons.prems by (simp add: dedup_inv_def)
  have i2: "dedup_inv ?s2" using Cons.prems by (simp add: dedup_inv_def)
  show ?case
    using i1 i2 Cons.IH [OF i1] Cons.IH [OF i2]
      Cons.IH [OF dedup_inv_pchome_accept [OF i1]]
    by (auto simp: Let_def split: pchome_parse.splits)
qed

lemma dedup_inv_momo_page_end:
  "dedup_inv s \<Longrightarrow> dedup_inv (snd (momo_page_end n m s))"
  by (auto simp: momo_page_end_def momo_next_page_def Let_def dedup_inv_def)

lemma dedup_inv_pchome_page_end:
  "dedup_inv s \<Longrightarrow> dedup_inv (snd (pchome_page_end n m b s))"
  by (auto simp: pchome_page_end_def pchome_next_page_def Let_def dedup_inv_def)

lemma dedup_inv_momo_page_step:
  assumes "dedup_inv s"
  shows "dedup_inv (snd (momo_page_step site m s))"
proof -
  let ?s2 = "s\<lparr>cancel_checks := cancel_checks s + 1,
               requested_pages := requested_pages s @ [page s]\<rparr>"
  have a: "dedup_inv (s\<lparr>cancel_checks := cancel_checks s + 1\<rparr>)" "dedup_inv ?s2"
    "dedup_inv (?s2\<lparr>page_products_count := 0, consecutive_duplicates := 0\<rparr>)"
    using assms by (simp_all add: dedup_inv_def)
  show ?thesis
    using a dedup_inv_momo_page_end [OF dedup_inv_momo_elements [OF a(3)]]
    by (auto simp: momo_page_step_def Let_def split: momo_page.splits)
qed

lemma dedup_inv_pchome_page_step:
  assumes "dedup_inv s"
  shows "dedup_inv (snd (pchome_page_step site m s))"
proof -
  let ?s1 = "s\<lparr>cancel_checks := cancel_checks s + 1\<rparr>"
  have a: "dedup_inv ?s1"
    "dedup_inv (?s1\<lparr>page_products_count := 0, consecutive_duplicates := 0\<rparr>)"
    using assms by (simp_all add: dedup_inv_def)
  have e: "dedup_inv (snd (pchome_elements c m es
       (?s1\<lparr>page_products_count := 0, consecutive_duplicates := 0\<rparr>)))" for c es
    by (rule dedup_inv_pchome_elements [OF a(2)])
  show ?thesis
    using a(1) e dedup_inv_pchome_page_end
    by (auto simp: pchome_page_step_def Let_def split: pchome_page.splits prod.splits bool.splits)
       (metis snd_conv)+
qed

lemma dedup_inv_momo_loop: "dedup_inv s \<Longrightarrow> dedup_inv (momo_loop site m s)"
proof (induction site m s rule: momo_loop.induct)
  case (1 site m s)
  show ?case
  proof (cases "length (products s) < m")
    case False
    then show ?thesis using "1.prems" by (subst momo_loop.simps) simp
  next
    case True
    obtain f s' where st: "momo_page_step site m s = (f, s')"
      by (cases "momo_page_step site m s")
    have inv': "dedup_inv s'"
      using dedup_inv_momo_page_step [OF "1.prems", of site m] st by simp
    show ?thesis
    proof (cases f)
      case Stop
      then show ?thesis using True st inv' by (subst momo_loop.simps) simp
    next
      case Continue
      then have "dedup_inv (momo_loop site m s')"
        using "1.IH" [OF True st [symmetric]] inv' by simp
      then show ?thesis using True st Continue by (subst momo_loop.simps) simp
    qed
  qed
qed

lemma dedup_inv_pchome_loop: "dedup_inv s \<Longrightarrow> dedup_inv (pchome_loop site m s)"
proof (induction site m s rule: pchome_loop.induct)
  case (1 site m s)
  show ?case
  proof (cases "length (products s) < m")
    case False
    then show ?thesis using "1.prems" by (subst pchome_loop.simps) simp
  next
    case True
    obtain f s' where st: "pchome_page_step site m s = (f, s')"
      by (cases "pchome_page_step site m s")
    have inv': "dedup_inv s'"
      using dedup_inv_pchome_page_step [OF "1.prems", of site m] st by simp
    show ?thesis
    proof (cases f)
      case Stop
      then show ?thesis using True st inv' by (subst pchome_loop.simps) simp
    next
      case Continue
      then have "dedup_inv (pchome_loop site m s')"
        using "1.IH" [OF True st [symmetric]] inv' by simp
      then show ?thesis using True st Continue by (subst pchome_loop.simps) simp
    qed
  qed
qed

lemma dedup_inv_momo_run: "dedup_inv (momo_run site m)"
  by (simp add: momo_run_def dedup_inv_initial dedup_inv_momo_loop)

lemma dedup_inv_pchome_run: "dedup_inv (pchome_run site m)"
proof -
  have "dedup_inv pchome_first_page"
    by (simp add: dedup_inv_def initial_state_def pchome_first_page_def)
  then show ?thesis
    by (simp add: pchome_run_def dedup_inv_initial dedup_inv_pchome_loop)
qed

text \<open>
  Claim C6: for every scrape run of either storefront, no two records of the returned
  list share a URL and no two share a non-empty SKU.
\<close>

theorem C6_dedup_invariant:
  "distinct (map pr_url (fetch_products_for_momo momo_shop max_products))
   \<and> distinct (filter (\<lambda>sku. sku \<noteq> []) (map pr_sku (fetch_products_for_momo momo_shop max_products)))
   \<and> distinct (map pr_url (fetch_products_for_pchome pchome_shop max_products))
   \<and> distinct (filter (\<lambda>sku. sku \<noteq> []) (map pr_sku (fetch_products_for_pchome pchome_shop max_products)))"
  using dedup_inv_momo_run [of momo_shop max_products]
    dedup_inv_pchome_run [of pchome_shop max_products]
  by (simp add: dedup_inv_def fetch_products_for_momo_def fetch_products_for_pchome_def)

subsection \<open>SKUs of the PChome scrape\<close>

lemma skus_present_pchome_elements:
  "skus_present s \<Longrightarrow> skus_present (snd (pchome_elements c m es s))"
proof (induction es arbitrary: s)
  case Nil
  then show ?case by simp
next
  case (Cons e es)
  let ?s1 = "s\<lparr>cancel_checks := cancel_checks s + 1\<rparr>"
  let ?s2 = "?s1\<lparr>consecutive_duplicates := consecutive_duplicates ?s1 + 1\<rparr>"
  have i1: "skus_present ?s1" using Cons.prems by (simp add: skus_present_def)
  have i2: "skus_present ?s2" using Cons.prems by (simp add: skus_present_def)
  have i3: "skus_present (pchome_accept ?s1 l)" if "l_sku l \<noteq> []" for l
    using Cons.prems that by (auto simp: skus_present_def pchome_accept_def)
  show ?case
    using i1 i2 Cons.IH [OF i1] Cons.IH [OF i2] Cons.IH [OF i3]
    by (auto simp: Let_def split: pchome_parse.splits)
qed

lemma skus_present_pchome_page_end:
  "skus_present s \<Longrightarrow> skus_present (snd (pchome_page_end n m b s))"
  by (auto simp: pchome_page_end_def pchome_next_page_def Let_def skus_present_def)

lemma skus_present_pchome_page_step:
  assumes "skus_present s"
  shows "skus_present (snd (pchome_page_step site m s))"
proof -
  let ?s1 = "s\<lparr>cancel_checks := cancel_checks s + 1\<rparr>"
  have a: "skus_present ?s1"
    "skus_present (?s1\<lparr>page_products_count := 0, consecutive_duplicates := 0\<rparr>)"
    using assms by (simp_all add: skus_present_def)
  have e: "skus_present (snd (pchome_elements c m es
       (?s1\<lparr>page_products_count := 0, consecutive_duplicates := 0\<rparr>)))" for c es
    by (rule skus_present_pchome_elements [OF a(2)])
  show ?thesis
    using a(1) e skus_present_pchome_page_end
    by (auto simp: pchome_page_step_def Let_def split: pchome_page.splits prod.splits bool.splits)
       (metis snd_conv)+
qed

lemma skus_present_pchome_loop: "skus_present s \<Longrightarrow> skus_present (pchome_loop site m s)"
proof (induction site m s rule: pchome_loop.induct)
  case (1 site m s)
  show ?case
  proof (cases "length (products s) < m")
    case False
    then show ?thesis using "1.prems" by (subst pchome_loop.simps) simp
  next
    case True
    obtain f s' where st: "pchome_page_step site m s = (f, s')"
      by (cases "pchome_page_step site m s")
    have inv': "skus_present s'"
      using skus_present_pchome_page_step [OF "1.prems", of site m] st by simp
    show ?thesis
    proof (cases f)
      case Stop
      then show ?thesis using True st inv' by (subst pchome_loop.simps) simp
    next
      case Continue
      then have "skus_present (pchome_loop site m s')"
        using "1.IH" [OF True st [symmetric]] inv' by simp
      then show ?thesis using True st Continue by (subst pchome_loop.simps) simp
    qed
  qed
qed

lemma skus_present_pchome_run: "skus_present (pchome_run site m)"
proof -
  have "skus_present initial_state" "skus_present pchome_first_page"
    by (simp_all add: skus_present_def initial_state_def pchome_first_page_def)
  then show ?thesis
    by (simp add: pchome_run_def skus_present_pchome_loop)
qed

subsection \<open>Stopping after an empty first page\<close>

lemma momo_first_page_stops:
  assumes "momo_pages site 1 = Listing n_total found"
    and "length (first_nonempty found selectors_to_try) < 10"
    and "momo_page_one_count site m (first_nonempty found selectors_to_try) = 0"
  shows "\<exists>s'. momo_page_step site m initial_state = (Stop, s') \<and> products s' = []
     \<and> set (requested_pages s') \<subseteq> {1}"
proof -
  let ?s2 = "initial_state\<lparr>cancel_checks := cancel_checks initial_state + 1,
       requested_pages := requested_pages initial_state @ [page initial_state]\<rparr>"
  let ?s0 = "?s2\<lparr>page_products_count := 0, consecutive_duplicates := 0\<rparr>"
  let ?s3 = "momo_elements (momo_cancel_check site) m (first_nonempty found selectors_to_try) ?s0"
  have entry: "?s0 = momo_page_one_entry"
    by (simp add: momo_page_one_entry_def initial_state_def)
  have cnt: "page_products_count ?s3 = 0"
    using assms(3) unfolding momo_page_one_count_def entry .
  have "length (products ?s3) + page_products_count ?s0
      = length (products ?s0) + page_products_count ?s3"
    and pg: "page ?s3 = page ?s0" and rq: "requested_pages ?s3 = requested_pages ?s0"
    using momo_elements_count [of "momo_cancel_check site" m
        "first_nonempty found selectors_to_try" ?s0] by blast+
  then have f: "products ?s3 = []" "page ?s3 = 1" "requested_pages ?s3 = [1]"
    using cnt by (simp_all add: initial_state_def)
  have "\<exists>s'. momo_page_end (length (first_nonempty found selectors_to_try)) m ?s3 = (Stop, s')
      \<and> products s' = [] \<and> set (requested_pages s') \<subseteq> {1}"
    using f cnt assms(2) by (simp add: momo_page_end_def Let_def)
  then show ?thesis
    using assms(1)
    by (auto simp: momo_page_step_def Let_def initial_state_def)
qed

lemma momo_early_stop:
  assumes "momo_pages site 1 = Listing n_total found"
    and "length (first_nonempty found selectors_to_try) < 10"
    and "momo_page_one_count site m (first_nonempty found selectors_to_try) = 0"
  shows "fetch_products_for_momo site m = [] \<and> set (requested_pages (momo_run site m)) \<subseteq> {1}"
proof -
  from momo_first_page_stops [OF assms] obtain s' where
    st: "momo_page_step site m initial_state = (Stop, s')" and p: "products s' = []"
    and r: "set (requested_pages s') \<subseteq> {1}"
    by blast
  have len0: "length (products initial_state) = 0"
    by (simp add: initial_state_def)
  have "momo_loop site m initial_state = (if 0 < m then s' else initial_state)"
    by (subst momo_loop.simps) (simp add: st len0)
  then show ?thesis
    using p r by (simp add: fetch_products_for_momo_def momo_run_def initial_state_def)
qed

lemma pchome_first_page_stops:
  assumes "pchome_pages site 1 = PChomeListing els next_button"
    and "length els < 10"
    and "pchome_page_one_count site m els = 0"
  shows "\<exists>s'. pchome_page_step site m pchome_first_page = (Stop, s')
     \<and> products s' = [] \<and> set (requested_pages s') \<subseteq> {1}"
proof -
  let ?s1 = "pchome_first_page\<lparr>cancel_checks := cancel_checks pchome_first_page + 1\<rparr>"
  let ?s0 = "?s1\<lparr>page_products_count := 0, consecutive_duplicates := 0\<rparr>"
  have entry: "?s0 = pchome_page_one_entry"
    by (simp add: pchome_page_one_entry_def pchome_first_page_def initial_state_def)
  obtain aborted s2 where el: "pchome_elements (pchome_cancel_check site) m els ?s0 = (aborted, s2)"
    by (cases "pchome_elements (pchome_cancel_check site) m els ?s0")
  have cnt: "page_products_count s2 = 0"
    using assms(3) el unfolding pchome_page_one_count_def entry [symmetric] by simp
  have "length (products s2) + page_products_count ?s0
      = length (products ?s0) + page_products_count s2"
    and pg: "page s2 = page ?s0" and rq: "requested_pages s2 = requested_pages ?s0"
    using pchome_elements_count [of "pchome_cancel_check site" m els ?s0] el by simp_all
  then have f: "products s2 = []" "page s2 = 1" "requested_pages s2 = [1]"
    using cnt by (simp_all add: initial_state_def pchome_first_page_def)
  have "\<exists>s'. pchome_page_end (length els) m next_button s2 = (Stop, s')
      \<and> products s' = [] \<and> set (requested_pages s') \<subseteq> {1}"
    using f cnt assms(2) by (simp add: pchome_page_end_def Let_def)
  then show ?thesis
    using assms(1) el f
    by (cases aborted)
       (auto simp: pchome_page_step_def Let_def initial_state_def pchome_first_page_def)
qed

lemma pchome_early_stop:
  assumes "pchome_pages site 1 = PChomeListing els next_button"
    and "length els < 10"
    and "pchome_page_one_count site m els = 0"
  shows "fetch_products_for_pchome site m = []
     \<and> set (requested_pages (pchome_run site m)) \<subseteq> {1}"
proof -
  from pchome_first_page_stops [OF assms] obtain s' where
    st: "pchome_page_step site m pchome_first_page = (Stop, s')"
    and p: "products s' = []" and r: "set (requested_pages s') \<subseteq> {1}"
    by blast
  have len0: "length (products pchome_first_page) = 0"
    by (simp add: initial_state_def pchome_first_page_def)
  have "pchome_loop site m pchome_first_page = (if 0 < m then s' else pchome_first_page)"
    by (subst pchome_loop.simps) (simp add: st len0)
  then show ?thesis
    using p r
    by (simp add: fetch_products_for_pchome_def pchome_run_def initial_state_def
        pchome_first_page_def)
qed


subsection \<open>Price extraction\<close>

lemma py_max_Max: "xs \<noteq> [] \<Longrightarrow> py_max xs = Max (set xs)"
proof (cases xs)
  case Nil
  assume "xs \<noteq> []"
  with Nil show ?thesis by simp
next
  case (Cons a list)
  have "Max (set (a # list)) = fold max list a"
    by (rule Max.set_eq_fold)
  then show ?thesis
    using Cons by (simp add: py_max_def)
qed

lemma ints_of_eq:
  "ints_of runs =
     (if list_ex (\<lambda>run. length run > int_max_str_digits) runs then None
      else Some (map digits_number runs))"
  by (induction runs) (auto simp: int_of_digits_def)

lemma potential_prices_eq:
  "potential_prices text = (if overlong text then None else Some (price_values text))"
  by (simp add: potential_prices_def overlong_def price_values_def ints_of_eq)

lemma digit_runs_aux_no_digit:
  "\<not> list_ex decimal_digit s \<Longrightarrow> digit_runs_aux cur s = (if cur = [] then [] else [rev cur])"
  by (induction s arbitrary: cur) (auto simp: list_ex_iff)

lemma set_replace_subset: "set (replace s old []) \<subseteq> set s"
proof (induction s old "[] :: pystr" rule: replace.induct)
  case (1 s old)
  show ?case
  proof (cases "s = []")
    case True
    then show ?thesis by (subst replace.simps) simp
  next
    case False
    show ?thesis
    proof (cases "old \<noteq> [] \<and> startswith s old")
      case True
      have "set (drop (length old) s) \<subseteq> set s"
        by (rule set_drop_subset)
      then show ?thesis
        using "1.hyps"(1) [OF False True] False True
        by (subst replace.simps) auto
    next
      case nomatch: False
      have "set (tl s) \<subseteq> set s"
        using False by (cases s) auto
      then show ?thesis
        using "1.hyps"(2) [OF False nomatch] False nomatch
        by (subst replace.simps) (cases s, auto)
    qed
  qed
qed

lemma findall_digits_no_digit:
  assumes "\<not> list_ex isdigit text"
  shows "findall_digits (replace text (lit '','') []) = []"
proof -
  have "\<not> list_ex decimal_digit text"
    using assms by (auto simp: list_ex_iff isdigit_def)
  then have "\<not> list_ex decimal_digit (replace text (lit '','') [])"
    using set_replace_subset [of "text" "lit '',''"] by (auto simp: list_ex_iff)
  then show ?thesis
    by (simp add: findall_digits_def digit_runs_aux_no_digit)
qed

lemma momo_text_price_eq:
  "momo_text_price text =
     (if overlong text then Raises
      else if price_values text = [] then Nothing
      else Number (Max (set (price_values text))))"
proof (cases "findall_digits (replace text (lit '','') []) = []")
  case True
  then have "\<not> overlong text" "price_values text = []"
    by (simp_all add: overlong_def price_values_def)
  then show ?thesis
    using True by (simp add: momo_text_price_def)
next
  case False
  then have "list_ex isdigit text"
    using findall_digits_no_digit by blast
  moreover from this have "text \<noteq> []" by auto
  ultimately show ?thesis
    using False by (simp add: momo_text_price_def potential_prices_eq py_max_Max)
qed

lemma price_values_above_10: "n \<in> set (price_values text) \<Longrightarrow> 10 < n"
  by (simp add: price_values_def)

lemma price_values_Max: "price_values text \<noteq> [] \<Longrightarrow> 10 < Max (set (price_values text))"
  using price_values_above_10 [of "Max (set (price_values text))" "text"] by simp

lemma first_text_price_find:
  "first_text_price texts price =
     (case List.find (\<lambda>text. overlong text \<or> price_values text \<noteq> []) texts of
        None \<Rightarrow> Some price
      | Some text \<Rightarrow> if overlong text then None else Some (Max (set (price_values text))))"
  by (induction texts) (simp_all add: momo_text_price_eq)

lemma find_append:
  "List.find P (xs @ ys) = (case List.find P xs of None \<Rightarrow> List.find P ys | Some x \<Rightarrow> Some x)"
  by (induction xs) simp_all

lemma find_Some_holds: "List.find P xs = Some x \<Longrightarrow> P x"
  by (induction xs) (auto split: if_splits)

lemma momo_selector_price_concat:
  "price \<le> 0 \<Longrightarrow>
   momo_selector_price element selectors price =
     first_text_price (concat (map (me_price_texts element) selectors)) price"
proof (induction selectors)
  case Nil
  show ?case by simp
next
  case (Cons selector selectors)
  let ?P = "\<lambda>text. overlong text \<or> price_values text \<noteq> []"
  show ?case
  proof (cases "List.find ?P (me_price_texts element selector)")
    case None
    then show ?thesis
      using Cons by (simp add: first_text_price_find find_append)
  next
    case (Some t)
    then have "?P t" by (rule find_Some_holds)
    then show ?thesis
      using Some price_values_Max [of t]
      by (auto simp: first_text_price_find find_append)
  qed
qed

lemma momo_listing_price_eq:
  "momo_listing_price element =
     (case List.find (\<lambda>text. overlong text \<or> price_values text \<noteq> []) (momo_price_texts element) of
        Some text \<Rightarrow> if overlong text then None else Some (Max (set (price_values text)))
      | None \<Rightarrow>
          Some (if overlong (me_text element) \<or> price_values (me_text element) = [] then 0
                else Max (set (price_values (me_text element)))))"
proof -
  let ?P = "\<lambda>text. overlong text \<or> price_values text \<noteq> []"
  have sel: "momo_selector_price element price_selectors 0 =
      first_text_price (momo_price_texts element) 0"
    unfolding momo_price_texts_def by (rule momo_selector_price_concat) simp
  show ?thesis
  proof (cases "List.find ?P (momo_price_texts element)")
    case None
    have empty: "price_values (me_text element) = []"
      if "findall_digits (replace (me_text element) (lit '','') []) = []"
      using that by (simp add: price_values_def)
    have nolong: "\<not> overlong (me_text element)"
      if "findall_digits (replace (me_text element) (lit '','') []) = []"
      using that by (simp add: overlong_def)
    show ?thesis
      using None empty nolong
      by (auto simp: momo_listing_price_def sel first_text_price_find potential_prices_eq py_max_Max)
  next
    case (Some t)
    then have "?P t" by (rule find_Some_holds)
    then show ?thesis
      using Some price_values_Max [of t]
      by (auto simp: momo_listing_price_def sel first_text_price_find)
  qed
qed

lemma py_min_Min: "xs \<noteq> [] \<Longrightarrow> py_min xs = Min (set xs)"
proof (cases xs)
  case Nil
  assume "xs \<noteq> []"
  with Nil show ?thesis by simp
next
  case (Cons a list)
  have "Min (set (a # list)) = fold min list a"
    by (rule Min.set_eq_fold)
  then show ?thesis
    using Cons by (simp add: py_min_def)
qed

lemma text_amount_eq:
  "text_amount price_text =
     (case findall_digits (clean_price_text price_text) of
        [] \<Rightarrow> Nothing
      | run # runs \<Rightarrow>
          if length run > int_max_str_digits then Raises else Number (digits_number run))"
  by (simp add: text_amount_def search_digits_def int_of_digits_def split: list.splits)

lemma window_amounts_Nil [simp]: "window_amounts [] = []"
  by (simp add: window_amounts_def)

lemma window_amounts_Cons:
  "window_amounts (t # ts) =
     (case text_amount t of
        Number n \<Rightarrow> if in_price_window n then n # window_amounts ts else window_amounts ts
      | _ \<Rightarrow> window_amounts ts)"
  by (simp add: window_amounts_def split: number_read.splits)

lemma price_blocks_eq:
  "price_blocks blocks (prices, installment_prices) =
     (prices @ window_amounts (filter (\<lambda>block. \<not> has_marker block_markers block)
                 (takeWhile (\<lambda>block. text_amount block \<noteq> Raises) (map strip blocks))),
      installment_prices @ window_amounts (filter (has_marker block_markers)
                 (takeWhile (\<lambda>block. text_amount block \<noteq> Raises) (map strip blocks))))"
proof (induction blocks arbitrary: prices installment_prices)
  case Nil
  show ?case by simp
next
  case (Cons raw blocks)
  show ?case
    by (cases "text_amount (strip raw)")
       (simp_all add: Cons Let_def has_marker_def [symmetric] window_amounts_Cons
          in_price_window_def)
qed

lemma dollar_amounts_eq:
  "dollar_amounts amounts prices =
     (prices @ filter in_price_window
                 (List.map_filter int_of_kept_digits
                    (takeWhile (\<lambda>amount. int_of_kept_digits amount \<noteq> None) amounts)),
      list_ex (\<lambda>amount. int_of_kept_digits amount = None) amounts)"
proof (induction amounts arbitrary: prices)
  case Nil
  show ?case by (simp add: List.map_filter_simps)
next
  case (Cons amount amounts)
  show ?case
    by (cases "int_of_kept_digits amount")
       (simp_all add: Cons List.map_filter_simps in_price_window_def)
qed

lemma takeWhile_append_all:
  "takeWhile P (xs @ ys) = (if list_all P xs then xs @ takeWhile P ys else takeWhile P xs)"
  by (induction xs) auto

lemma takeWhile_all: "list_all P xs \<Longrightarrow> takeWhile P xs = xs"
  by (simp add: list_all_iff)

lemma text_lines_eq:
  "text_lines lines prices =
     prices @ filter in_price_window
       (List.map_filter int_of_kept_digits
          (takeWhile (\<lambda>amount. int_of_kept_digits amount \<noteq> None)
             (concat (map findall_dollar
                (filter (\<lambda>line. \<not> has_marker line_markers line) lines)))))"
proof (induction lines arbitrary: prices)
  case Nil
  show ?case by (simp add: List.map_filter_simps)
next
  case (Cons line lines)
  show ?case
  proof (cases "has_marker line_markers line")
    case True
    then show ?thesis
      using Cons [of prices] by (simp add: has_marker_def)
  next
    case False
    let ?ok = "\<lambda>amount. int_of_kept_digits amount \<noteq> None"
    have raised: "list_ex (\<lambda>amount. int_of_kept_digits amount = None) (findall_dollar line)
        \<longleftrightarrow> \<not> list_all ?ok (findall_dollar line)"
      by (auto simp: list_ex_iff list_all_iff)
    have mf: "List.map_filter int_of_kept_digits (xs @ ys)
        = List.map_filter int_of_kept_digits xs @ List.map_filter int_of_kept_digits ys"
      for xs ys by (simp add: List.map_filter_def)
    show ?thesis
      using False Cons
      by (auto simp: has_marker_def [symmetric] dollar_amounts_eq raised takeWhile_append_all
          mf takeWhile_all)
  qed
qed

lemma pchome_prices_eq:
  "pchome_prices element =
     (if block_candidates element \<noteq> [] then block_candidates element
      else if line_candidates element \<noteq> [] then line_candidates element
      else sale_price element,
      block_instalments element)"
  using price_blocks_eq [of "pe_price_divs element" "[]" "[]"]
    text_lines_eq [of "split (pe_text element) [10]" "[]"]
  by (simp add: pchome_prices_def block_candidates_def block_instalments_def blocks_read_def
      line_candidates_def Let_def)




lemma choose_price_eq:
  "choose_price prices inst =
     (if prices = [] then 0
      else if length prices = 1 then hd prices
      else if Min (set prices) \<notin> set inst then Min (set prices)
      else if filter (\<lambda>p. p \<notin> set inst) prices \<noteq> []
        then Min (set (filter (\<lambda>p. p \<notin> set inst) prices))
      else Max (set prices))"
  by (auto simp: choose_price_def Let_def py_min_Min py_max_Max)



subsection \<open>The example cards, evaluated\<close>

lemma digit_value_ascii:
  "c < 1632 \<Longrightarrow> digit_value c = (if 48 \<le> c \<and> c \<le> 57 then Some (c - 48) else None)"
  by (auto simp: digit_value_def decimal_zeros_def)

lemma decimal_digit_ascii: "c < 1632 \<Longrightarrow> decimal_digit c \<longleftrightarrow> 48 \<le> c \<and> c \<le> 57"
  by (simp add: decimal_digit_def digit_value_ascii)

lemma digit_value_fullwidth:
  "65296 \<le> c \<Longrightarrow> c < 65306 \<Longrightarrow> digit_value c = Some (c - 65296)"
  by (simp add: digit_value_def decimal_zeros_def)

lemma decimal_digit_fullwidth: "65296 \<le> c \<Longrightarrow> c < 65306 \<Longrightarrow> decimal_digit c"
  by (simp add: decimal_digit_def digit_value_fullwidth)

lemmas read_digits = replace.simps startswith_def findall_digits_def decimal_digit_ascii
  digit_value_ascii digits_number_def int_max_str_digits_def lit_def

lemma price_values_single: "price_values (lit ''$29,900'') = [29900]" "\<not> overlong (lit ''$29,900'')"
  by (simp_all add: price_values_def overlong_def read_digits)


lemma price_values_badge: "price_values (lit ''10'') = []" "\<not> overlong (lit ''10'')"
  by (simp_all add: price_values_def overlong_def read_digits)

lemma price_values_fullwidth:
  "price_values [65301, 65296, 65296] = [500]" "\<not> overlong [65301, 65296, 65296]"
  by (simp_all add: price_values_def overlong_def read_digits decimal_digit_fullwidth
      digit_value_fullwidth)

lemma momo_price_texts_card:
  "momo_price_texts (momo_card title_text price_text href) = [price_text]"
  by (simp add: momo_price_texts_def price_selectors_def momo_card_def card_prices_def)

lemma momo_price_texts_badge:
  "momo_price_texts momo_badge_card = [lit ''10'', [65301, 65296, 65296], lit ''$9,999'']"
  by (simp add: momo_price_texts_def price_selectors_def momo_badge_card_def badge_prices_def)


lemma badge_card_price: "momo_listing_price momo_badge_card = Some 500"
  by (simp add: momo_listing_price_eq momo_price_texts_badge price_values_badge
      price_values_fullwidth)

lemmas read_amount = text_amount_eq clean_price_text_def strip_def py_isspace_def read_digits

lemma amounts:
  "text_amount (lit ''$29,900'') = Number 29900" "text_amount (lit ''$27,500'') = Number 27500"
  "text_amount (lit ''$2,291 x 12'') = Number 2291" "text_amount (lit ''$50'') = Number 50"
  "text_amount (lit ''$3,000'') = Number 3000" "text_amount (lit ''$500'') = Number 500"
  "text_amount (lit ''$500 x 6'') = Number 500"
  "text_amount (lit ''$20,000,000'') = Number 20000000"
  by (simp_all add: read_amount)

lemma markers:
  "\<not> has_marker block_markers (lit ''$29,900'')" "\<not> has_marker block_markers (lit ''$27,500'')"
  "has_marker block_markers (lit ''$2,291 x 12'')" "\<not> has_marker block_markers (lit ''$50'')"
  "\<not> has_marker block_markers (lit ''$3,000'')" "\<not> has_marker block_markers (lit ''$500'')"
  "has_marker block_markers (lit ''$500 x 6'')"
  by (simp_all add: has_marker_def block_markers_def startswith_def lit_def)

lemma strip_blocks:
  "strip (lit ''$29,900'') = lit ''$29,900''" "strip (lit ''$27,500'') = lit ''$27,500''"
  "strip (lit ''$2,291 x 12'') = lit ''$2,291 x 12''" "strip (lit ''$50'') = lit ''$50''"
  "strip (lit ''$3,000'') = lit ''$3,000''" "strip (lit ''$500'') = lit ''$500''"
  "strip (lit ''$500 x 6'') = lit ''$500 x 6''"
  "strip (lit ''$20,000,000'') = lit ''$20,000,000''"
  by (simp_all add: strip_def py_isspace_def lit_def)

lemmas read_blocks = blocks_read_def block_candidates_def block_instalments_def
  window_amounts_def in_price_window_def pchome_card_def strip_blocks amounts markers

lemma phone_card_blocks:
  "block_candidates pchome_phone_card = [29900, 27500]"
  "block_instalments pchome_phone_card = [2291]"
  by (simp_all add: pchome_phone_card_def read_blocks)







lemma phone_card_prices: "pchome_prices pchome_phone_card = ([29900, 27500], [2291])"
  by (simp add: pchome_prices_eq phone_card_blocks)

lemma phone_card_price: "pchome_listing_price pchome_phone_card = 27500"
  by (simp add: pchome_listing_price_def phone_card_prices choose_price_eq)



lemma momo_card_price:
  "\<not> overlong price_text \<Longrightarrow> price_values price_text \<noteq> [] \<Longrightarrow>
   momo_listing_price (momo_card title_text price_text href)
     = Some (Max (set (price_values price_text)))"
  by (simp add: momo_listing_price_eq momo_price_texts_card)

lemma momo_card_title:
  "strip title_text = title_text \<Longrightarrow> 5 < length title_text \<Longrightarrow>
   momo_title_loop (momo_card title_text price_text href) title_selectors [] = Found title_text"
  by (auto simp: title_selectors_def momo_card_def card_title_def)

lemma strip_phone_title: "strip (lit ''Apple iPhone 15'') = lit ''Apple iPhone 15''"
  by (simp add: strip_def py_isspace_def lit_def)

lemma momo_card_url:
  "startswith href (lit ''http'') \<Longrightarrow> href \<noteq> [] \<Longrightarrow>
   momo_url (momo_card title_text price_text href) = Found href"
  by (simp add: momo_url_def momo_card_def card_href_def momo_absolute_def)

lemma search_link_no_code:
  "search_i_code (lit ''https://www.momoshop.com.tw/search/?keyword=a'') = None"
  by (simp add: startswith_def lit_def)

lemma search_link_no_sku:
  "momo_sku_from_url (lit ''https://www.momoshop.com.tw/search/?keyword=a'') = []"
  unfolding momo_sku_from_url_def search_link_no_code
  by (simp add: rstrip_chars_def split_def split_aux.simps startswith_def Let_def lit_def)

lemma parse_search_link_card:
  "parse_momo momo_search_link_card =
     Some \<lparr>l_title = lit ''Apple iPhone 15'', l_price = 29900,
           l_url = lit ''https://www.momoshop.com.tw/search/?keyword=a'', l_sku = [],
           l_image_url = []\<rparr>"
proof -
  let ?u = "lit ''https://www.momoshop.com.tw/search/?keyword=a''"
  have t: "strip (me_text momo_search_link_card) = lit ''Apple iPhone 15 $29,900''"
    by (simp add: momo_search_link_card_def momo_card_def strip_def py_isspace_def lit_def)
  have ti: "momo_title_loop momo_search_link_card title_selectors [] = Found (lit ''Apple iPhone 15'')"
    unfolding momo_search_link_card_def
    by (rule momo_card_title) (simp_all add: strip_phone_title)
  have pr: "momo_listing_price momo_search_link_card = Some 29900"
    unfolding momo_search_link_card_def
    by (simp add: momo_card_price price_values_single)
  have u: "momo_url momo_search_link_card = Found ?u"
    unfolding momo_search_link_card_def
    by (rule momo_card_url) (simp_all add: startswith_def lit_def)
  have su: "momo_sku_url momo_search_link_card ?u = Found ([], ?u)"
    unfolding momo_sku_url_def
    by (simp add: search_link_no_sku momo_search_link_card_def momo_card_def Let_def)
  show ?thesis
    unfolding parse_momo_def t ti pr u
    by (simp add: su Let_def) (simp add: momo_search_link_card_def momo_card_def)
qed

lemma first_nonempty_one_page:
  "first_nonempty (one_page_listing (e # es)) selectors_to_try = e # es"
  by (simp add: selectors_to_try_def one_page_listing_def)

lemma momo_search_link_run:
  "map pr_sku (fetch_products_for_momo (momo_one_page [momo_search_link_card]) 50) = [[]]"
  by (simp add: fetch_products_for_momo_def momo_run_def momo_loop.simps initial_state_def
      momo_page_step_def momo_one_page_def momo_page_one_def never_cancelled_def
      first_nonempty_one_page parse_search_link_card
      momo_is_duplicate_def momo_accept_def momo_page_end_def momo_next_page_def Let_def)

lemma image_loop_no_image: "image_loop element selectors url = (url, [])"
  if "pe_img element = no_image"
  using that by (induction selectors arbitrary: url) (simp_all add: no_image_def)

lemma data_attribute_none: "data_attribute_image element attrs = []"
  if "pe_attr element = no_attribute"
  using that by (induction attrs) (simp_all add: no_attribute_def)

lemma parse_pchome_plain:
  assumes "pe_link e = Found (Some href)" and "pe_title e = Found title_text"
    and "pe_img e = no_image" and "pe_attr e = no_attribute"
  shows "parse_pchome e =
     Parsed \<lparr>l_title = strip title_text,
             l_price = pchome_listing_price e,
             l_url = (if \<not> startswith href (lit ''https://'')
                      then lit ''https://24h.pchome.com.tw'' @ href else href),
             l_sku = (case search_prod (if \<not> startswith href (lit ''https://'')
                                        then lit ''https://24h.pchome.com.tw'' @ href else href) of
                        Some g \<Rightarrow> g | None \<Rightarrow> []),
             l_image_url = []\<rparr>"
proof -
  have img: "pchome_image e [] = []"
    unfolding pchome_image_def pchome_absolute_image_def data_attribute_none [OF assms(4)]
    by simp
  show ?thesis
    unfolding parse_pchome_def assms(1,2) image_loop_no_image [OF assms(3)]
    by (simp add: Let_def img)
qed

lemma parse_pchome_card:
  "parse_pchome (pchome_card title_text blocks href) =
     Parsed \<lparr>l_title = strip title_text,
             l_price = pchome_listing_price (pchome_card title_text blocks href),
             l_url = (if \<not> startswith href (lit ''https://'')
                      then lit ''https://24h.pchome.com.tw'' @ href else href),
             l_sku = (case search_prod (if \<not> startswith href (lit ''https://'')
                                        then lit ''https://24h.pchome.com.tw'' @ href else href) of
                        Some g \<Rightarrow> g | None \<Rightarrow> []),
             l_image_url = []\<rparr>"
  by (rule parse_pchome_plain) (simp_all add: pchome_card_def)

lemma phone_card_sku:
  "search_prod (lit ''https://24h.pchome.com.tw'' @ lit ''/prod/DYAJ-A900'') = Some (lit ''DYAJ-A900'')"
  by (simp add: startswith_def lit_def)

lemma store_card_sku:
  "search_prod (lit ''https://24h.pchome.com.tw'' @ lit ''/store/DYAJ'') = None"
  by (simp add: startswith_def lit_def)

lemma parse_phone_card:
  "parse_pchome pchome_phone_card =
     Parsed \<lparr>l_title = lit ''Apple iPhone 15'', l_price = 27500,
             l_url = lit ''https://24h.pchome.com.tw'' @ lit ''/prod/DYAJ-A900'',
             l_sku = lit ''DYAJ-A900'', l_image_url = []\<rparr>"
proof -
  have s: "\<not> startswith (lit ''/prod/DYAJ-A900'') (lit ''https://'')"
    by (simp add: startswith_def lit_def)
  have p: "pchome_listing_price (pchome_card (lit ''Apple iPhone 15'')
      [lit ''$29,900'', lit ''$27,500'', lit ''$2,291 x 12''] (lit ''/prod/DYAJ-A900'')) = 27500"
    using phone_card_price by (simp add: pchome_phone_card_def)
  show ?thesis
    unfolding pchome_phone_card_def parse_pchome_card p
    by (simp only: s phone_card_sku strip_phone_title if_True not_False_eq_True option.case)
qed

lemma parse_store_card:
  "\<exists>l. parse_pchome pchome_store_link_card = Parsed l \<and> l_sku l = []"
proof -
  have s: "\<not> startswith (lit ''/store/DYAJ'') (lit ''https://'')"
    by (simp add: startswith_def lit_def)
  show ?thesis
    unfolding pchome_store_link_card_def parse_pchome_card
    by (simp only: s store_card_sku if_True not_False_eq_True option.case) simp
qed

lemma pchome_two_card_run:
  "map pr_sku (fetch_products_for_pchome
     (pchome_one_page [pchome_store_link_card, pchome_phone_card]) 50) = [lit ''DYAJ-A900'']"
proof -
  obtain l where l: "parse_pchome pchome_store_link_card = Parsed l" "l_sku l = []"
    using parse_store_card by blast
  show ?thesis
    by (simp add: fetch_products_for_pchome_def pchome_run_def pchome_loop.simps
        pchome_first_page_def initial_state_def pchome_page_step_def pchome_one_page_def
        pchome_page_one_def never_cancelled_def l parse_phone_card pchome_is_duplicate_def
        pchome_accept_def pchome_page_end_def pchome_next_page_def Let_def)
qed

lemma momo_one_card_run:
  "map pr_price (fetch_products_for_momo (momo_one_page [momo_search_link_card]) 50) = [29900]"
  by (simp add: fetch_products_for_momo_def momo_run_def momo_loop.simps initial_state_def
      momo_page_step_def momo_one_page_def momo_page_one_def never_cancelled_def
      first_nonempty_one_page parse_search_link_card
      momo_is_duplicate_def momo_accept_def momo_page_end_def momo_next_page_def Let_def)

lemma pchome_one_card_run:
  "map pr_price (fetch_products_for_pchome (pchome_one_page [pchome_phone_card]) 50) = [27500]"
  by (simp add: fetch_products_for_pchome_def pchome_run_def pchome_loop.simps
      pchome_first_page_def initial_state_def pchome_page_step_def pchome_one_page_def
      pchome_page_one_def never_cancelled_def parse_phone_card pchome_is_duplicate_def
      pchome_accept_def pchome_page_end_def pchome_next_page_def Let_def)

lemma cancelled_count:
  "momo_page_one_count (momo_cancelled_shop elements) m (e # es) = 0"
  by (simp add: momo_page_one_count_def momo_page_one_entry_def momo_cancelled_shop_def
      cancelled_at_first_element_def initial_state_def Let_def)

lemma broken_count:
  "pchome_page_one_count site m (pchome_broken_card # es) = 0"
  if "pchome_cancel_check site = never_cancelled" and "0 < m"
  using that
  by (simp add: pchome_page_one_count_def pchome_page_one_entry_def pchome_first_page_def
      initial_state_def never_cancelled_def parse_pchome_def pchome_broken_card_def Let_def)






text \<open>
  Claim C9: when page 1 shows fewer than 10 listing elements and its element loop ends
  with \<^verbatim>\<open>page_products_count\<close> at 0 (for whatever reason: no element parses to a valid
  record, the user cancels, or an exception ends the loop), the scrape of either
  storefront returns the empty list and requests no page other than page 1; in
  particular it never requests page 2.
\<close>

theorem C9_early_stop:
  "(momo_pages momo_shop 1 = Listing n_total found
      \<and> length (first_nonempty found selectors_to_try) < 10
      \<and> momo_page_one_count momo_shop max_products (first_nonempty found selectors_to_try) = 0
    \<longrightarrow> fetch_products_for_momo momo_shop max_products = []
        \<and> 2 \<notin> set (requested_pages (momo_run momo_shop max_products))
        \<and> set (requested_pages (momo_run momo_shop max_products)) \<subseteq> {1})
   \<and> (pchome_pages pchome_shop 1 = PChomeListing elements next_button
      \<and> length elements < 10
      \<and> pchome_page_one_count pchome_shop max_products elements = 0
    \<longrightarrow> fetch_products_for_pchome pchome_shop max_products = []
        \<and> 2 \<notin> set (requested_pages (pchome_run pchome_shop max_products))
        \<and> set (requested_pages (pchome_run pchome_shop max_products)) \<subseteq> {1})"
proof -
  have two: "2 \<notin> set xs" if "set xs \<subseteq> {1}" for xs :: "nat list"
    using that by auto
  show ?thesis
    using momo_early_stop [of momo_shop n_total found max_products]
      pchome_early_stop [of pchome_shop elements next_button max_products] two
    by blast
qed

theorem C9_witness:
  "momo_pages (momo_cancelled_shop
       [momo_search_link_card, momo_search_link_card, momo_search_link_card]) 1
     = Listing None (one_page_listing
         [momo_search_link_card, momo_search_link_card, momo_search_link_card])
   \<and> first_nonempty (one_page_listing
         [momo_search_link_card, momo_search_link_card, momo_search_link_card]) selectors_to_try
     = [momo_search_link_card, momo_search_link_card, momo_search_link_card]
   \<and> momo_page_one_count (momo_cancelled_shop
         [momo_search_link_card, momo_search_link_card, momo_search_link_card]) 50
         [momo_search_link_card, momo_search_link_card, momo_search_link_card] = 0
   \<and> map pr_price (fetch_products_for_momo (momo_one_page [momo_search_link_card]) 50) = [29900]
   \<and> fetch_products_for_momo (momo_cancelled_shop
         [momo_search_link_card, momo_search_link_card, momo_search_link_card]) 50 = []
   \<and> 2 \<notin> set (requested_pages (momo_run (momo_cancelled_shop
         [momo_search_link_card, momo_search_link_card, momo_search_link_card]) 50))
   \<and> pchome_pages (pchome_endless_shop [pchome_broken_card, pchome_phone_card, pchome_phone_card]) 1
     = PChomeListing [pchome_broken_card, pchome_phone_card, pchome_phone_card] True
   \<and> pchome_page_one_count
        (pchome_endless_shop [pchome_broken_card, pchome_phone_card, pchome_phone_card]) 50
        [pchome_broken_card, pchome_phone_card, pchome_phone_card] = 0
   \<and> map pr_price (fetch_products_for_pchome (pchome_one_page [pchome_phone_card]) 50) = [27500]
   \<and> fetch_products_for_pchome
        (pchome_endless_shop [pchome_broken_card, pchome_phone_card, pchome_phone_card]) 50 = []
   \<and> 2 \<notin> set (requested_pages (pchome_run
        (pchome_endless_shop [pchome_broken_card, pchome_phone_card, pchome_phone_card]) 50))"
proof -
  let ?ms = "[momo_search_link_card, momo_search_link_card, momo_search_link_card]"
  let ?ps = "[pchome_broken_card, pchome_phone_card, pchome_phone_card]"
  have m1: "momo_pages (momo_cancelled_shop ?ms) 1 = Listing None (one_page_listing ?ms)"
    by (simp add: momo_cancelled_shop_def momo_every_page_def)
  have m2: "first_nonempty (one_page_listing ?ms) selectors_to_try = ?ms"
    by (rule first_nonempty_one_page)
  have m3: "momo_page_one_count (momo_cancelled_shop ?ms) 50 ?ms = 0"
    by (rule cancelled_count)
  have p1: "pchome_pages (pchome_endless_shop ?ps) 1 = PChomeListing ?ps True"
    by (simp add: pchome_endless_shop_def pchome_every_page_def)
  have p3: "pchome_page_one_count (pchome_endless_shop ?ps) 50 ?ps = 0"
    by (rule broken_count) (simp_all add: pchome_endless_shop_def)
  from C9_early_stop [of "momo_cancelled_shop ?ms" None "one_page_listing ?ms" 50
      "pchome_endless_shop ?ps" ?ps True]
  show ?thesis
    unfolding m2 using m1 m3 p1 p3 momo_one_card_run pchome_one_card_run unfolding m2 by simp
qed


text \<open>
  Claim C10: no record returned by the PChome scraper has an empty SKU; a card whose
  link yields no SKU is passed over and the scrape goes on to the next card; the MOMO
  scraper returns a record with the empty SKU for a card that has no hidden product id
  and whose link has neither a product code nor a last path segment.
\<close>

theorem C10_sku_presence:
  "[] \<notin> set (map pr_sku (fetch_products_for_pchome pchome_shop max_products))
   \<and> map pr_sku (fetch_products_for_pchome
        (pchome_one_page [pchome_store_link_card, pchome_phone_card]) 50) = [lit ''DYAJ-A900'']
   \<and> map pr_sku (fetch_products_for_momo (momo_one_page [momo_search_link_card]) 50) = [[]]"
  using skus_present_pchome_run [of pchome_shop max_products]
  by (simp only: skus_present_def fetch_products_for_pchome_def [symmetric]
      pchome_two_card_run momo_search_link_run simp_thms)

theorem C10_witness:
  "fetch_products_for_pchome (pchome_one_page [pchome_store_link_card, pchome_phone_card]) 50 \<noteq> []
   \<and> [] \<notin> set (map pr_sku (fetch_products_for_pchome
        (pchome_one_page [pchome_store_link_card, pchome_phone_card]) 50))"
  using C10_sku_presence [of "pchome_one_page [pchome_store_link_card, pchome_phone_card]" 50]
  by auto

end
